theory Spec2Isabelle
  imports Main
begin

section \<open>JavaScript values used by both scripts\<close>

text \<open>
  A string-valued property that may be missing is a \<open>string option\<close>; \<open>None\<close> is
  \<open>undefined\<close>. JavaScript treats \<open>undefined\<close> and the empty string as falsy, every
  other string as truthy.
\<close>

definition truthy :: "string option \<Rightarrow> bool" where
  "truthy v = (case v of None \<Rightarrow> False | Some s \<Rightarrow> s \<noteq> [])"

text \<open>\<open>a || b\<close> on two optional strings.\<close>

definition or_else :: "string option \<Rightarrow> string option \<Rightarrow> string option" where
  "or_else a b = (if truthy a then a else b)"

text \<open>The string a template literal or a path function sees; only used on truthy values.\<close>

definition str :: "string option \<Rightarrow> string" where
  "str v = (case v of None \<Rightarrow> ''undefined'' | Some s \<Rightarrow> s)"

definition nl :: string where
  "nl = [CHR 0x0A]"

section \<open>The bundle-config assembler (rollup configuration)\<close>

subsection \<open>Manifest, options and environment\<close>

text \<open>
  \<open>bundleOutput\<close> of the manifest is merged over the UMD descriptor with
  \<open>Object.assign\<close>: every key it carries replaces the computed one. A field is
  \<open>None\<close> when the key is missing from \<open>bundleOutput\<close>.
\<close>

record output_overrides =
  ov_banner :: "string option"
  ov_file :: "string option"
  ov_format :: "string option"
  ov_globals :: "(string \<rightharpoonup> string) option"
  ov_name :: "string option"
  ov_footer :: "string option"
  ov_sourcemap :: "bool option"

text \<open>
  The fields of \<open>package.json\<close> that the assembler reads (\<open>bundleInput\<close> is
  destructured at line 85 and never used). \<open>name\<close>, \<open>version\<close> and \<open>author\<close> are
  strings. \<open>standalone\<close> is read for its truthiness and \<open>bundleNoExports\<close> is
  compared with \<open>true\<close>, so a missing key and \<open>false\<close> behave alike.
  \<open>peerDependencies\<close> and \<open>dependencies\<close> are objects; an association list keeps
  their keys in property order. The fields carry a prefix, as \<open>main\<close> is the function
  and \<open>file\<close> and \<open>output\<close> are words of the theory language.
\<close>

record manifest =
  pkg_name :: string
  pkg_version :: string
  pkg_author :: string
  pkg_main :: "string option"
  pkg_module :: "string option"
  pkg_bundle :: "string option"
  pkg_bundleOutput :: "output_overrides option"
  pkg_bundleNoExports :: "bool option"
  pkg_namespace :: "string option"
  pkg_standalone :: "bool option"
  pkg_peerDependencies :: "(string \<times> string) list option"
  pkg_dependencies :: "(string \<times> string) list option"

record options =
  opt_sourcemap :: "bool option"
  opt_globals :: "(string \<rightharpoonup> string) option"
  opt_production :: "bool option"
  opt_external :: "string list option"
  opt_excludedExternals :: "string list option"
  opt_main :: "string option"
  opt_module :: "string option"
  opt_bundle :: "string option"
  opt_input :: "string option"

text \<open>
  What the module reads from outside: the working directory, the manifest found there,
  the file system (\<open>fs.existsSync\<close>), \<open>process.env.NODE_ENV\<close>, the clock
  (\<open>new Date().toUTCString()\<close>), the table exported by the globals package, and
  the joining and normalising of two path segments done by Node's library.
\<close>

record env =
  projectFolder :: string
  pkg :: manifest
  existsSync :: "string \<Rightarrow> bool"
  NODE_ENV :: "string option"
  utc_now :: string
  imported_globals :: "string \<rightharpoonup> string"
  join_normalized :: "string \<Rightarrow> string \<Rightarrow> string"

text \<open>
  \<open>path.join\<close>: the segments joined and normalised; Node returns \<open>.\<close> where the
  result would be the empty string.
\<close>

definition path_join :: "env \<Rightarrow> string \<Rightarrow> string \<Rightarrow> string" where
  "path_join e a b = (let p = join_normalized e a b in if p = [] then ''.'' else p)"

subsection \<open>Configuration objects\<close>

datatype plugin =
  Sourcemaps | Resolve | Commonjs | Sucrase | StringPlugin | Replace string | Terser

record output_descriptor =
  out_banner :: string
  out_file :: string
  out_format :: string
  out_sourcemap :: bool
  out_globals :: "(string \<rightharpoonup> string) option"
  out_name :: "string option"
  out_footer :: "string option"

text \<open>
  The first configuration carries a list of descriptors (\<open>output: []\<close>, then
  \<open>push\<close>); each UMD configuration carries one descriptor object.
\<close>

datatype output_field = OutputList "output_descriptor list" | OutputObject output_descriptor

record config =
  cfg_plugins :: "plugin list"
  cfg_external :: "string list"
  cfg_input :: string
  cfg_output :: output_field
  cfg_treeshake :: "bool option"

datatype error = EntryFileError

subsection \<open>String helpers\<close>

definition is_lower :: "char \<Rightarrow> bool" where
  "is_lower c = (let n = (of_char c :: nat) in 97 \<le> n \<and> n \<le> 122)"

text \<open>
  \<open>s.replace(/[^a-z]+/g, '_')\<close>: every maximal run of characters outside \<open>a-z\<close>
  becomes one underscore. The flag says whether the previous character was in a run. A
  character outside ASCII is several bytes here and one or two code units in JavaScript,
  all of them outside \<open>a-z\<close>, so the result is the same.
\<close>

fun replace_non_lower :: "bool \<Rightarrow> string \<Rightarrow> string" where
  "replace_non_lower in_run [] = []"
| "replace_non_lower in_run (c # cs) =
     (if is_lower c then c # replace_non_lower False cs
      else if in_run then replace_non_lower True cs
      else CHR ''_'' # replace_non_lower True cs)"

text \<open>\<open>s.replace(/GMT/g, 'UTC')\<close>.\<close>

fun replace_GMT :: "string \<Rightarrow> string" where
  "replace_GMT [] = []"
| "replace_GMT (c # cs) =
     (if take 3 (c # cs) = ''GMT'' then ''UTC'' @ replace_GMT (drop 2 cs)
      else c # replace_GMT cs)"

definition ends_with :: "string \<Rightarrow> string \<Rightarrow> bool" where
  "ends_with s suf =
     (length suf \<le> length s \<and> drop (length s - length suf) s = suf)"

text \<open>\<open>file.replace(/\.js$/, '.min.js')\<close>: the pattern matches only at the end of the string.\<close>

definition min_file :: "string \<Rightarrow> string" where
  "min_file f =
     (if ends_with f ''.js'' then take (length f - 3) f @ ''.min.js'' else f)"

text \<open>\<open>ns.split('.')[0]\<close>.\<close>

definition split_first :: "string \<Rightarrow> string" where
  "split_first ns = takeWhile (\<lambda>c. c \<noteq> CHR ''.'') ns"

definition Object_keys :: "(string \<times> string) list option \<Rightarrow> string list" where
  "Object_keys obj = (case obj of None \<Rightarrow> [] | Some kvs \<Rightarrow> map fst kvs)"

definition or_empty :: "string list option \<Rightarrow> string list" where
  "or_empty xs = (case xs of None \<Rightarrow> [] | Some l \<Rightarrow> l)"

subsection \<open>The function \<open>main\<close>\<close>

definition base_plugins :: "env \<Rightarrow> plugin list" where
  "base_plugins e =
     [Sourcemaps, Resolve, Commonjs, Sucrase, StringPlugin, Replace (pkg_version (pkg e))]"

definition base_banner :: "env \<Rightarrow> string" where
  "base_banner e =
     ''/* eslint-disable */'' @ nl @
     '' '' @ nl @
     ''/*!'' @ nl @
     '' * '' @ pkg_name (pkg e) @ '' - v'' @ pkg_version (pkg e) @ nl @
     '' * Compiled '' @ replace_GMT (utc_now e) @ nl @
     '' *'' @ nl @
     '' * '' @ pkg_name (pkg e) @ '' is licensed under the MIT License.'' @ nl @
     '' * http://www.opensource.org/licenses/mit-license'' @ nl @
     '' * '' @ nl @
     '' * Copyright 2019-2020, '' @ pkg_author (pkg e) @ '', All Rights Reserved'' @ nl @
     '' */''"

text \<open>Lines 94 to 112: the entry file, or the thrown error.\<close>

definition resolve_input :: "env \<Rightarrow> options \<Rightarrow> error + string" where
  "resolve_input e opts =
     (let input0 = opt_input opts;
          indexTs = path_join e (projectFolder e) ''src/index.ts'';
          input1 = (if \<not> truthy input0 then
                      (if existsSync e indexTs then Some indexTs else input0)
                    else input0);
          indexJs = path_join e (projectFolder e) ''src/index.js'';
          input2 = (if \<not> truthy input1 then
                      (if existsSync e indexJs then Some indexJs else input1)
                    else input1)
      in if \<not> truthy input2 then Inl EntryFileError else Inr (str input2))"

text \<open>Lines 114 to 118.\<close>

definition externals :: "env \<Rightarrow> options \<Rightarrow> string list" where
  "externals e opts =
     filter
       (\<lambda>p. \<not> (case opt_excludedExternals opts of None \<Rightarrow> False | Some ex \<Rightarrow> p \<in> set ex))
       ((([] @ or_empty (opt_external opts))
          @ Object_keys (pkg_peerDependencies (pkg e)))
          @ Object_keys (pkg_dependencies (pkg e)))"

definition opt_sourcemap_value :: "options \<Rightarrow> bool" where
  "opt_sourcemap_value opts = (case opt_sourcemap opts of None \<Rightarrow> True | Some b \<Rightarrow> b)"

definition opt_globals_value :: "options \<Rightarrow> (string \<rightharpoonup> string)" where
  "opt_globals_value opts = (case opt_globals opts of None \<Rightarrow> Map.empty | Some g \<Rightarrow> g)"

definition opt_production_value :: "options \<Rightarrow> bool" where
  "opt_production_value opts = (case opt_production opts of None \<Rightarrow> False | Some b \<Rightarrow> b)"

text \<open>Lines 127 to 142: the descriptors pushed to \<open>config.output\<close>.\<close>

definition main_module_outputs :: "env \<Rightarrow> options \<Rightarrow> output_descriptor list" where
  "main_module_outputs e opts =
     (if truthy (or_else (opt_main opts) (pkg_main (pkg e))) then
        [\<lparr>out_banner = base_banner e,
          out_file = path_join e (projectFolder e) (str (or_else (opt_main opts) (pkg_main (pkg e)))),
          out_format = ''cjs'',
          out_sourcemap = opt_sourcemap_value opts,
          out_globals = None, out_name = None, out_footer = None\<rparr>]
      else [])
     @
     (if truthy (or_else (opt_module opts) (pkg_module (pkg e))) then
        [\<lparr>out_banner = base_banner e,
          out_file = path_join e (projectFolder e) (str (or_else (opt_module opts) (pkg_module (pkg e)))),
          out_format = ''esm'',
          out_sourcemap = opt_sourcemap_value opts,
          out_globals = None, out_name = None, out_footer = None\<rparr>]
      else [])"

text \<open>Line 150, line 151.\<close>

definition umd_name :: "env \<Rightarrow> string" where
  "umd_name e = replace_non_lower False (pkg_name (pkg e))"

definition umd_ns :: "env \<Rightarrow> string" where
  "umd_ns e =
     (if truthy (pkg_namespace (pkg e)) then str (pkg_namespace (pkg e)) else ''PIXI'')"

definition is_standalone :: "env \<Rightarrow> bool" where
  "is_standalone e = (pkg_standalone (pkg e) = Some True)"

text \<open>Lines 154 to 170: the footer and the banner of the UMD descriptors.\<close>

definition umd_footer :: "env \<Rightarrow> string option" where
  "umd_footer e =
     (if \<not> is_standalone e then
        (if pkg_bundleNoExports (pkg e) \<noteq> Some True then
           Some (''if (typeof '' @ umd_name e @ '' !== '' @ [CHR 0x27] @ ''undefined'' @ [CHR 0x27]
                 @ '') { Object.assign(this.'' @ umd_ns e @ '', '' @ umd_name e @ ''); }'')
         else None)
      else None)"

definition umd_banner :: "env \<Rightarrow> string" where
  "umd_banner e =
     (if \<not> is_standalone e then
        (let b1 = (if CHR ''.'' \<in> set (umd_ns e) then
                     base_banner e @ nl @ ''this.'' @ split_first (umd_ns e) @ '' = this.''
                       @ split_first (umd_ns e) @ '' || {};''
                   else base_banner e)
         in b1 @ nl @ ''this.'' @ umd_ns e @ '' = this.'' @ umd_ns e @ '' || {};'')
      else base_banner e)"

text \<open>\<open>Object.assign(descriptor, bundleOutput)\<close>.\<close>

definition assign_overrides ::
  "output_descriptor \<Rightarrow> output_overrides option \<Rightarrow> output_descriptor" where
  "assign_overrides d bo =
     (case bo of
        None \<Rightarrow> d
      | Some ov \<Rightarrow>
          \<lparr>out_banner = (case ov_banner ov of None \<Rightarrow> out_banner d | Some b \<Rightarrow> b),
           out_file = (case ov_file ov of None \<Rightarrow> out_file d | Some f \<Rightarrow> f),
           out_format = (case ov_format ov of None \<Rightarrow> out_format d | Some f \<Rightarrow> f),
           out_sourcemap = (case ov_sourcemap ov of None \<Rightarrow> out_sourcemap d | Some s \<Rightarrow> s),
           out_globals = (case ov_globals ov of None \<Rightarrow> out_globals d | Some g \<Rightarrow> Some g),
           out_name = (case ov_name ov of None \<Rightarrow> out_name d | Some n \<Rightarrow> Some n),
           out_footer = (case ov_footer ov of None \<Rightarrow> out_footer d | Some f \<Rightarrow> Some f)\<rparr>)"

text \<open>Line 172 and the descriptor literal shared by lines 177 to 185 and 194 to 202.\<close>

definition umd_file :: "env \<Rightarrow> options \<Rightarrow> string" where
  "umd_file e opts =
     path_join e (projectFolder e) (str (or_else (opt_bundle opts) (pkg_bundle (pkg e))))"

definition umd_descriptor :: "env \<Rightarrow> options \<Rightarrow> string \<Rightarrow> output_descriptor" where
  "umd_descriptor e opts f =
     assign_overrides
       \<lparr>out_banner = umd_banner e,
        out_file = f,
        out_format = ''umd'',
        out_sourcemap = opt_sourcemap_value opts,
        out_globals = Some (imported_globals e ++ opt_globals_value opts),
        out_name = Some (umd_name e),
        out_footer = umd_footer e\<rparr>
       (pkg_bundleOutput (pkg e))"

definition is_production :: "env \<Rightarrow> options \<Rightarrow> bool" where
  "is_production e opts = (NODE_ENV e = Some ''production'' \<or> opt_production_value opts)"

definition main :: "env \<Rightarrow> options \<Rightarrow> error + config list" where
  "main e opts =
     (case resolve_input e opts of
        Inl err \<Rightarrow> Inl err
      | Inr inp \<Rightarrow>
          (let ext = externals e opts;
               cfg = \<lparr>cfg_plugins = base_plugins e, cfg_external = ext, cfg_input = inp,
                      cfg_output = OutputList (main_module_outputs e opts), cfg_treeshake = None\<rparr>
           in if \<not> truthy (opt_bundle opts) \<and> \<not> truthy (pkg_bundle (pkg e)) then Inr [cfg]
              else
                (let results = [cfg];
                     results = results @
                       [\<lparr>cfg_plugins = base_plugins e, cfg_external = ext, cfg_input = inp,
                         cfg_output = OutputObject (umd_descriptor e opts (umd_file e opts)),
                         cfg_treeshake = Some False\<rparr>];
                     results =
                       (if is_production e opts then
                          results @
                            [\<lparr>cfg_plugins = base_plugins e @ [Terser], cfg_external = ext, cfg_input = inp,
                              cfg_output = OutputObject
                                (umd_descriptor e opts (min_file (umd_file e opts))),
                              cfg_treeshake = Some False\<rparr>]
                        else results)
                 in Inr results)))"

section \<open>The declaration-rollup runner (api-extractor over a lerna workspace)\<close>

subsection \<open>Workspace packages\<close>

text \<open>
  The runner reads \<open>name\<close> and \<open>bundledPackages\<close> of a workspace package's manifest;
  the other fields travel with it untouched.
\<close>

record package_manifest =
  m_name :: string
  m_bundledPackages :: "string list option"
  m_other :: "(string \<times> string) list"

text \<open>An element of the list \<open>getPackages\<close> resolves to: the folder and the manifest.\<close>

record lerna_package =
  lp_location :: string
  lp_manifest :: package_manifest

text \<open>
  An element of \<open>projectPackageJsons\<close> after line 34: the object \<open>toJSON()\<close> returned,
  with the property \<open>location\<close> assigned.
\<close>

record package_json = package_manifest +
  location :: string

record compiler_options =
  outDir :: "string option"

record tsconfig =
  compilerOptions :: "compiler_options option"

subsection \<open>The extraction tool\<close>

text \<open>The object handed to \<open>ExtractorConfig.prepare\<close> (lines 50 to 83).\<close>

record prepare_args =
  mainEntryPointFilePath :: string
  cfg_projectFolder :: string
  bundledPackages :: "string list"
  tsconfigFilePath :: string
  dtsRollup_enabled :: bool
  untrimmedFilePath :: string
  compilerMessage_logLevel :: string
  extractorMessage_logLevel :: string
  tsdocMessage_logLevel :: string
  packageJson :: package_json
  packageFolder :: string
  packageJsonFullPath :: string

record extractor_result =
  succeeded :: bool
  errorCount :: nat
  warningCount :: nat

text \<open>
  The world of the runner. The three calls into the extraction tool may throw: \<open>Inl\<close>
  carries the exception. \<open>'cfg\<close> is the tool's prepared configuration, \<open>'cs\<close> its
  compiler state. Reading the configuration file that exists, listing the workspace and
  the path functions are taken to return.
\<close>

record ('cfg, 'cs) runner_env =
  cwd :: string
  fs_existsSync :: "string \<Rightarrow> bool"
  require_tsconfig :: "string \<Rightarrow> tsconfig"
  getPackages :: "string \<Rightarrow> lerna_package list"
  join :: "string \<Rightarrow> string \<Rightarrow> string"
  relative :: "string \<Rightarrow> string \<Rightarrow> string"
  ExtractorConfig_prepare :: "prepare_args \<Rightarrow> string + 'cfg"
  CompilerState_create :: "'cfg \<Rightarrow> string + 'cs"
  Extractor_invoke :: "'cfg \<Rightarrow> bool option \<Rightarrow> 'cs \<Rightarrow> string + extractor_result"

subsection \<open>Process state\<close>

datatype stream = Stdout | Stderr

text \<open>
  What has happened so far: the console lines, the packages \<open>Extractor.invoke\<close> was
  called for, and the variable \<open>compilerState\<close>.
\<close>

record 'cs run_state =
  console :: "(stream \<times> string) list"
  invocations :: "package_json list"
  compilerState :: "'cs option"

text \<open>
  How a run stops before its end: \<open>process.exit(code)\<close>, or an exception nothing catches
  (the promise of \<open>main\<close> is rejected).
\<close>

datatype stop = Exit nat | Uncaught string

definition print :: "stream \<Rightarrow> string \<Rightarrow> 'cs run_state \<Rightarrow> 'cs run_state" where
  "print s line st = st\<lparr>console := console st @ [(s, line)]\<rparr>"

function string_of_nat :: "nat \<Rightarrow> string" where
  "string_of_nat n =
     (if n < 10 then [char_of (48 + n)]
      else string_of_nat (n div 10) @ [char_of (48 + n mod 10)])"
  by pat_completeness auto
termination
  by (relation "measure id") auto

declare string_of_nat.simps [simp del]

subsection \<open>The function \<open>main\<close> of the runner\<close>

text \<open>Lines 32 to 34: the JSON copies with their \<open>location\<close>; line 37: the filter.\<close>

definition toJSON :: "lerna_package \<Rightarrow> package_manifest" where
  "toJSON p = lp_manifest p"

definition projectPackageJsons :: "lerna_package list \<Rightarrow> package_json list" where
  "projectPackageJsons projectPackages =
     map (\<lambda>p. package_manifest.extend (toJSON p) \<lparr>location = lp_location p\<rparr>) projectPackages"

definition has_entry :: "('cfg, 'cs) runner_env \<Rightarrow> string \<Rightarrow> bool" where
  "has_entry env loc = fs_existsSync env (join env loc ''./src/index.ts'')"

definition packageJsons :: "('cfg, 'cs) runner_env \<Rightarrow> package_json list \<Rightarrow> package_json list" where
  "packageJsons env pkgJsons = filter (\<lambda>pkgJson. has_entry env (location pkgJson)) pkgJsons"

text \<open>Lines 44 to 83.\<close>

definition extractor_args ::
  "('cfg, 'cs) runner_env \<Rightarrow> string \<Rightarrow> string \<Rightarrow> string \<Rightarrow> package_json \<Rightarrow> prepare_args" where
  "extractor_args env project_folder tsconfigJson outDirPath p =
     (let loc = location p;
          rel = relative env project_folder loc;
          dtsFolder = join env outDirPath rel
      in \<lparr>mainEntryPointFilePath = join env dtsFolder ''./src/index.d.ts'',
          cfg_projectFolder = location p,
          bundledPackages = (case m_bundledPackages p of None \<Rightarrow> [] | Some l \<Rightarrow> l),
          tsconfigFilePath = tsconfigJson,
          dtsRollup_enabled = True,
          untrimmedFilePath = join env loc ''index.d.ts'',
          compilerMessage_logLevel = ''none'',
          extractorMessage_logLevel = ''none'',
          tsdocMessage_logLevel = ''none'',
          packageJson = p,
          packageFolder = location p,
          packageJsonFullPath = join env (location p) ''./package.json''\<rparr>)"

text \<open>Lines 102 to 112: the report after \<open>Extractor.invoke\<close> returned.\<close>

definition report ::
  "package_json \<Rightarrow> extractor_result \<Rightarrow> 'cs run_state \<Rightarrow> 'cs run_state \<times> stop option" where
  "report p r st =
     (if succeeded r then
        (print Stderr (m_name p @ '': completed successfully!'') st, None)
      else
        (let st' = print Stderr
               (m_name p @ '': completed with '' @ string_of_nat (errorCount r) @ '' errors''
                  @ '' and '' @ string_of_nat (warningCount r) @ '' warnings'') st
         in if errorCount r > 0 then (st', Some (Exit 1)) else (st', None)))"

text \<open>Line 42: the header printed for a package.\<close>

definition header :: "package_json \<Rightarrow> string" where
  "header p = m_name p @ '' '' @ replicate 45 (CHR ''-'')"

text \<open>Line 85: \<open>compilerState = compilerState || CompilerState.create(extractorConfig)\<close>.\<close>

definition ensure_compilerState ::
  "('cfg, 'cs) runner_env \<Rightarrow> 'cs run_state \<Rightarrow> 'cfg \<Rightarrow> string + 'cs" where
  "ensure_compilerState env st extractorConfig =
     (case compilerState st of
        Some cs \<Rightarrow> Inr cs
      | None \<Rightarrow> CompilerState_create env extractorConfig)"

text \<open>Lines 41 to 113: the callback of \<open>packageJsons.forEach\<close>, for one package.\<close>

definition process_package ::
  "('cfg, 'cs) runner_env \<Rightarrow> string \<Rightarrow> string \<Rightarrow> string \<Rightarrow> bool option
     \<Rightarrow> 'cs run_state \<Rightarrow> package_json \<Rightarrow> 'cs run_state \<times> stop option" where
  "process_package env project_folder tsconfigJson outDirPath showVerboseMessages st p =
     (let st1 = print Stdout (header p) st
      in case ExtractorConfig_prepare env (extractor_args env project_folder tsconfigJson outDirPath p) of
           Inl ex \<Rightarrow> (st1, Some (Uncaught ex))
         | Inr extractorConfig \<Rightarrow>
             (case ensure_compilerState env st1 extractorConfig of
                Inl ex \<Rightarrow> (st1, Some (Uncaught ex))
              | Inr cs \<Rightarrow>
                  (let st2 = st1\<lparr>compilerState := Some cs\<rparr>;
                       st3 = st2\<lparr>invocations := invocations st2 @ [p]\<rparr>
                   in case Extractor_invoke env extractorConfig showVerboseMessages cs of
                        Inl ex \<Rightarrow>
                          (print Stderr ex (print Stdout (m_name p @ '' failed:'') st3),
                           Some (Exit 1))
                      | Inr r \<Rightarrow> report p r st3)))"

text \<open>\<open>Array.prototype.forEach\<close>, left as soon as the callback stops the run.\<close>

fun forEach ::
  "('s \<Rightarrow> 'a \<Rightarrow> 's \<times> stop option) \<Rightarrow> 's \<Rightarrow> 'a list \<Rightarrow> 's \<times> stop option" where
  "forEach f st [] = (st, None)"
| "forEach f st (x # xs) =
     (case f st x of
        (st', None) \<Rightarrow> forEach f st' xs
      | (st', Some halt) \<Rightarrow> (st', Some halt))"

definition initial_state :: "'cs run_state" where
  "initial_state = \<lparr>console = [], invocations = [], compilerState = None\<rparr>"

definition has_outDir :: "tsconfig \<Rightarrow> bool" where
  "has_outDir t =
     (case compilerOptions t of None \<Rightarrow> False | Some co \<Rightarrow> truthy (outDir co))"

definition get_outDir :: "tsconfig \<Rightarrow> string" where
  "get_outDir t = (case compilerOptions t of None \<Rightarrow> ''undefined'' | Some co \<Rightarrow> str (outDir co))"

text \<open>
  The runner's \<open>main\<close> (the name \<open>main\<close> is taken by the assembler's function). The
  result is the final state and how the run was stopped; \<open>None\<close> is a run that reached
  the end of \<open>main\<close>.
\<close>

definition runner_main ::
  "('cfg, 'cs) runner_env \<Rightarrow> string option \<Rightarrow> bool option \<Rightarrow> 'cs run_state \<times> stop option" where
  "runner_main env tsconfigJson0 showVerboseMessages =
     (let project_folder = cwd env;
          tsconfigJson = (if \<not> truthy tsconfigJson0 then join env project_folder ''./tsconfig.json''
                          else str tsconfigJson0)
      in if \<not> fs_existsSync env tsconfigJson then
           (initial_state,
            Some (Uncaught (tsconfigJson @ '' does not exist - a TypeScript configuration file is needed to use @pixi-build-tools/api-extractor-lerna-monorepo!'')))
         else
           (let tsconfig = require_tsconfig env tsconfigJson
            in if \<not> has_outDir tsconfig then
                 (initial_state,
                  Some (Uncaught (tsconfigJson @ '' does not specify compilerOptions.outDir'')))
               else
                 (let outDirPath = join env project_folder (get_outDir tsconfig);
                      projectPackages = getPackages env project_folder
                  in forEach
                       (process_package env project_folder tsconfigJson outDirPath showVerboseMessages)
                       initial_state
                       (packageJsons env (projectPackageJsons projectPackages)))))"

subsection \<open>Lines 31 to 37 on an explicit store\<close>

text \<open>
  The objects of lines 31 to 37 live in a store: a list of objects, an address being an
  index. \<open>getPackages\<close> resolves to an array of addresses of package objects.
  \<open>toJSON()\<close> of lerna's package class returns a new object with the manifest's
  properties, so each call allocates at the end of the store; the new object has no
  \<open>location\<close> yet. Reading a property of \<open>undefined\<close> is a \<open>TypeError\<close>: \<open>None\<close>.
\<close>

datatype heap_obj =
  PackageObject lerna_package
| JsonObject package_manifest "string option"

type_synonym heap = "heap_obj list"

definition heap_get :: "heap \<Rightarrow> nat \<Rightarrow> heap_obj option" where
  "heap_get h a = (if a < length h then Some (h ! a) else None)"

text \<open>Line 32: \<open>projectPackages.map(pkg => pkg.toJSON())\<close>.\<close>

fun map_toJSON :: "heap \<Rightarrow> nat list \<Rightarrow> (heap \<times> nat list) option" where
  "map_toJSON h [] = Some (h, [])"
| "map_toJSON h (a # as) =
     (case heap_get h a of
        Some (PackageObject p) \<Rightarrow>
          (case map_toJSON (h @ [JsonObject (toJSON p) None]) as of
             Some (h', js) \<Rightarrow> Some (h', length h # js)
           | None \<Rightarrow> None)
      | _ \<Rightarrow> None)"

text \<open>
  Line 34: \<open>pkgJson.location = projectPackages[i].location\<close> for each copy and the
  package at the same index.
\<close>

fun assign_locations :: "heap \<Rightarrow> nat list \<Rightarrow> nat list \<Rightarrow> heap option" where
  "assign_locations h [] as = Some h"
| "assign_locations h (j # js) [] = None"
| "assign_locations h (j # js) (a # as) =
     (case heap_get h j of
        Some (JsonObject m old) \<Rightarrow>
          (case heap_get h a of
             Some (PackageObject p) \<Rightarrow>
               assign_locations (h[j := JsonObject m (Some (lp_location p))]) js as
           | _ \<Rightarrow> None)
      | _ \<Rightarrow> None)"

text \<open>Line 37: the filter reads \<open>pkgJson.location\<close> and keeps or drops the reference.\<close>

fun filter_entries :: "('cfg, 'cs) runner_env \<Rightarrow> heap \<Rightarrow> nat list \<Rightarrow> nat list option" where
  "filter_entries env h [] = Some []"
| "filter_entries env h (j # js) =
     (case heap_get h j of
        Some (JsonObject m (Some loc)) \<Rightarrow>
          (case filter_entries env h js of
             Some ks \<Rightarrow> Some (if has_entry env loc then j # ks else ks)
           | None \<Rightarrow> None)
      | _ \<Rightarrow> None)"

text \<open>
  Lines 32 to 37 together: the final store, the array \<open>projectPackageJsons\<close> and the
  array \<open>packageJsons\<close>.
\<close>

definition discover ::
  "('cfg, 'cs) runner_env \<Rightarrow> heap \<Rightarrow> nat list \<Rightarrow> (heap \<times> nat list \<times> nat list) option" where
  "discover env h projectPackages =
     (case map_toJSON h projectPackages of
        None \<Rightarrow> None
      | Some (h1, js) \<Rightarrow>
          (case assign_locations h1 js projectPackages of
             None \<Rightarrow> None
           | Some h2 \<Rightarrow>
               (case filter_entries env h2 js of
                  None \<Rightarrow> None
                | Some ks \<Rightarrow> Some (h2, js, ks))))"

text \<open>What an address holds, read as a package object or as a finished JSON copy.\<close>

definition read_package :: "heap \<Rightarrow> nat \<Rightarrow> lerna_package option" where
  "read_package h a = (case heap_get h a of Some (PackageObject p) \<Rightarrow> Some p | _ \<Rightarrow> None)"

definition read_json :: "heap \<Rightarrow> nat \<Rightarrow> package_json option" where
  "read_json h j =
     (case heap_get h j of
        Some (JsonObject m (Some loc)) \<Rightarrow> Some (package_manifest.extend m \<lparr>location = loc\<rparr>)
      | _ \<Rightarrow> None)"

section \<open>Notions used to state the properties\<close>

subsection \<open>Assembler\<close>

text \<open>A key of the manifest's \<open>bundleOutput\<close>, \<open>None\<close> when the key or the object is missing.\<close>

definition bundleOutput_field :: "(output_overrides \<Rightarrow> 'a option) \<Rightarrow> env \<Rightarrow> 'a option" where
  "bundleOutput_field sel e =
     (case pkg_bundleOutput (pkg e) of None \<Rightarrow> None | Some ov \<Rightarrow> sel ov)"

text \<open>The descriptors of the configurations that carry one descriptor object: the UMD ones.\<close>

fun umd_outputs :: "config list \<Rightarrow> output_descriptor list" where
  "umd_outputs [] = []"
| "umd_outputs (c # cs) =
     (case cfg_output c of
        OutputList ds \<Rightarrow> umd_outputs cs
      | OutputObject d \<Rightarrow> d # umd_outputs cs)"

definition index_ts :: "env \<Rightarrow> string" where
  "index_ts e = path_join e (projectFolder e) ''src/index.ts''"

definition index_js :: "env \<Rightarrow> string" where
  "index_js e = path_join e (projectFolder e) ''src/index.js''"

text \<open>The members of an optional list of the caller, and the keys of an optional object.\<close>

definition supplied :: "string list option \<Rightarrow> string set" where
  "supplied xs = (case xs of None \<Rightarrow> {} | Some l \<Rightarrow> set l)"

definition manifest_keys :: "(string \<times> string) list option \<Rightarrow> string set" where
  "manifest_keys obj = (case obj of None \<Rightarrow> {} | Some kvs \<Rightarrow> fst ` set kvs)"

subsection \<open>Runner\<close>

text \<open>
  The values lines 14 to 37 compute before the loop: the configuration file, whether the
  two checks on it pass, the output directory, and the packages the loop runs over.
\<close>

definition resolved_tsconfigJson :: "('cfg, 'cs) runner_env \<Rightarrow> string option \<Rightarrow> string" where
  "resolved_tsconfigJson env tsconfigJson0 =
     (if \<not> truthy tsconfigJson0 then join env (cwd env) ''./tsconfig.json''
      else str tsconfigJson0)"

definition configured :: "('cfg, 'cs) runner_env \<Rightarrow> string option \<Rightarrow> bool" where
  "configured env tsconfigJson0 =
     (fs_existsSync env (resolved_tsconfigJson env tsconfigJson0)
      \<and> has_outDir (require_tsconfig env (resolved_tsconfigJson env tsconfigJson0)))"

definition resolved_outDir :: "('cfg, 'cs) runner_env \<Rightarrow> string option \<Rightarrow> string" where
  "resolved_outDir env tsconfigJson0 =
     join env (cwd env)
       (get_outDir (require_tsconfig env (resolved_tsconfigJson env tsconfigJson0)))"

definition selected_packages :: "('cfg, 'cs) runner_env \<Rightarrow> package_json list" where
  "selected_packages env = packageJsons env (projectPackageJsons (getPackages env (cwd env)))"

definition callback ::
  "('cfg, 'cs) runner_env \<Rightarrow> string option \<Rightarrow> bool option
     \<Rightarrow> 'cs run_state \<Rightarrow> package_json \<Rightarrow> 'cs run_state \<times> stop option" where
  "callback env tsconfigJson0 showVerboseMessages =
     process_package env (cwd env) (resolved_tsconfigJson env tsconfigJson0)
       (resolved_outDir env tsconfigJson0) showVerboseMessages"

text \<open>The workspace packages that contain \<open>src/index.ts\<close>.\<close>

definition packages_with_entry :: "('cfg, 'cs) runner_env \<Rightarrow> lerna_package list" where
  "packages_with_entry env =
     filter (\<lambda>p. fs_existsSync env (join env (lp_location p) ''./src/index.ts''))
       (getPackages env (cwd env))"

text \<open>
  The copy \<open>toJSON()\<close> allocates for a package, before and after line 34 has assigned
  its \<open>location\<close>.
\<close>

definition fresh_copy :: "lerna_package \<Rightarrow> heap_obj" where
  "fresh_copy p = JsonObject (toJSON p) None"

definition located_copy :: "lerna_package \<Rightarrow> heap_obj" where
  "located_copy p = JsonObject (toJSON p) (Some (lp_location p))"

section \<open>Example inputs\<close>

subsection \<open>A plugin package for the assembler\<close>

definition demo_join :: "string \<Rightarrow> string \<Rightarrow> string" where
  "demo_join a b = a @ ''/'' @ b"

definition demo_exists :: "string \<Rightarrow> bool" where
  "demo_exists p = (p = ''/proj/src/index.ts'')"

definition demo_pkg :: manifest where
  "demo_pkg =
     \<lparr>pkg_name = ''@pixi-essentials/my-plugin'', pkg_version = ''1.0.0'',
      pkg_author = ''A. Author'',
      pkg_main = Some ''lib/plugin.js'', pkg_module = Some ''lib/plugin.es.js'',
      pkg_bundle = Some ''dist/plugin.js'', pkg_bundleOutput = None,
      pkg_bundleNoExports = None, pkg_namespace = None, pkg_standalone = None,
      pkg_peerDependencies = Some [(''pixi.js'', ''^5.0.0'')],
      pkg_dependencies = Some [(''tslib'', ''^1.0.0'')]\<rparr>"

definition demo_env :: "manifest \<Rightarrow> env" where
  "demo_env m =
     \<lparr>projectFolder = ''/proj'', pkg = m, existsSync = demo_exists, NODE_ENV = None,
      utc_now = ''Mon, 02 Nov 2020 00:00:00 GMT'', imported_globals = Map.empty,
      join_normalized = demo_join\<rparr>"

definition empty_project :: "manifest \<Rightarrow> env" where
  "empty_project m = (demo_env m)\<lparr>existsSync := (\<lambda>p. False)\<rparr>"

definition no_options :: options where
  "no_options =
     \<lparr>opt_sourcemap = None, opt_globals = None, opt_production = None, opt_external = None,
      opt_excludedExternals = None, opt_main = None, opt_module = None, opt_bundle = None,
      opt_input = None\<rparr>"

definition production_options :: options where
  "production_options = no_options\<lparr>opt_production := Some True\<rparr>"

definition externals_options :: options where
  "externals_options =
     no_options\<lparr>opt_external := Some [''lodash'', ''tslib''],
                opt_excludedExternals := Some [''tslib'']\<rparr>"

definition no_overrides :: output_overrides where
  "no_overrides =
     \<lparr>ov_banner = None, ov_file = None, ov_format = None, ov_globals = None, ov_name = None,
      ov_footer = None, ov_sourcemap = None\<rparr>"

definition main_module_pkg :: manifest where
  "main_module_pkg = demo_pkg\<lparr>pkg_bundle := None\<rparr>"

definition standalone_pkg :: manifest where
  "standalone_pkg = demo_pkg\<lparr>pkg_standalone := Some True\<rparr>"

definition no_exports_pkg :: manifest where
  "no_exports_pkg = demo_pkg\<lparr>pkg_bundleNoExports := Some True\<rparr>"

definition standalone_footer_pkg :: manifest where
  "standalone_footer_pkg =
     demo_pkg\<lparr>pkg_standalone := Some True,
              pkg_bundleOutput :=
                Some (no_overrides\<lparr>ov_footer := Some ''Object.assign(this.PIXI, plugin);''\<rparr>)\<rparr>"

definition file_override_pkg :: manifest where
  "file_override_pkg =
     demo_pkg\<lparr>pkg_bundleOutput := Some (no_overrides\<lparr>ov_file := Some ''dist/bundle.js''\<rparr>)\<rparr>"

definition umd_suffix_pkg :: manifest where
  "umd_suffix_pkg = demo_pkg\<lparr>pkg_bundle := Some ''dist/plugin.umd''\<rparr>"

subsection \<open>A workspace of three packages for the runner\<close>

definition demo_relative :: "string \<Rightarrow> string \<Rightarrow> string" where
  "demo_relative from to = drop (length from + 1) to"

definition demo_workspace :: "lerna_package list" where
  "demo_workspace =
     [\<lparr>lp_location = ''/ws/packages/a'',
       lp_manifest =
         \<lparr>m_name = ''a'', m_bundledPackages = None, m_other = [(''version'', ''1.0.0'')]\<rparr>\<rparr>,
      \<lparr>lp_location = ''/ws/packages/b'',
       lp_manifest = \<lparr>m_name = ''b'', m_bundledPackages = Some [''a''], m_other = []\<rparr>\<rparr>,
      \<lparr>lp_location = ''/ws/packages/c'',
       lp_manifest = \<lparr>m_name = ''c'', m_bundledPackages = None, m_other = []\<rparr>\<rparr>]"

text \<open>Package \<open>c\<close> has no \<open>src/index.ts\<close>.\<close>

definition demo_files :: "string \<Rightarrow> bool" where
  "demo_files path =
     (path = ''/ws/./tsconfig.json'' \<or> path = ''/ws/packages/a/./src/index.ts''
      \<or> path = ''/ws/packages/b/./src/index.ts'')"

definition demo_tsconfig :: tsconfig where
  "demo_tsconfig = \<lparr>compilerOptions = Some \<lparr>outDir = Some ''compile''\<rparr>\<rparr>"

definition ok_result :: extractor_result where
  "ok_result = \<lparr>succeeded = True, errorCount = 0, warningCount = 0\<rparr>"

text \<open>Three extraction tools, told apart by what they do on package \<open>a\<close>.\<close>

definition warnings_only :: "string \<Rightarrow> string + extractor_result" where
  "warnings_only n =
     (if n = ''a'' then Inr \<lparr>succeeded = False, errorCount = 0, warningCount = 2\<rparr>
      else Inr ok_result)"

definition with_errors :: "string \<Rightarrow> string + extractor_result" where
  "with_errors n =
     (if n = ''a'' then Inr \<lparr>succeeded = False, errorCount = 3, warningCount = 1\<rparr>
      else Inr ok_result)"

definition crashing :: "string \<Rightarrow> string + extractor_result" where
  "crashing n = (if n = ''a'' then Inl ''Error: boom'' else Inr ok_result)"

definition demo_runner_env ::
  "(string \<Rightarrow> string + extractor_result) \<Rightarrow> (prepare_args, unit) runner_env" where
  "demo_runner_env tool =
     \<lparr>cwd = ''/ws'', fs_existsSync = demo_files, require_tsconfig = (\<lambda>path. demo_tsconfig),
      getPackages = (\<lambda>folder. demo_workspace), join = demo_join, relative = demo_relative,
      ExtractorConfig_prepare = Inr, CompilerState_create = (\<lambda>cfg. Inr ()),
      Extractor_invoke = (\<lambda>cfg verbose cs. tool (m_name (packageJson cfg)))\<rparr>"

text \<open>
  Two more tools: one whose \<open>ExtractorConfig.prepare\<close> throws, one whose
  \<open>CompilerState.create\<close> throws.
\<close>

definition prepare_crash_env :: "(prepare_args, unit) runner_env" where
  "prepare_crash_env =
     (demo_runner_env warnings_only)
       \<lparr>ExtractorConfig_prepare := (\<lambda>args. Inl ''Error: bad config'')\<rparr>"

definition create_crash_env :: "(prepare_args, unit) runner_env" where
  "create_crash_env =
     (demo_runner_env warnings_only)
       \<lparr>CompilerState_create := (\<lambda>cfg. Inl ''Error: no program'')\<rparr>"

definition demo_a :: package_json where
  "demo_a =
     \<lparr>m_name = ''a'', m_bundledPackages = None, m_other = [(''version'', ''1.0.0'')],
      location = ''/ws/packages/a''\<rparr>"

definition demo_b :: package_json where
  "demo_b =
     \<lparr>m_name = ''b'', m_bundledPackages = Some [''a''], m_other = [],
      location = ''/ws/packages/b''\<rparr>"

definition demo_cfg ::
  "(string \<Rightarrow> string + extractor_result) \<Rightarrow> package_json \<Rightarrow> prepare_args" where
  "demo_cfg tool p =
     extractor_args (demo_runner_env tool) (cwd (demo_runner_env tool))
       (resolved_tsconfigJson (demo_runner_env tool) None)
       (resolved_outDir (demo_runner_env tool) None) p"

text \<open>A store holding the three package objects of the workspace.\<close>

definition demo_heap :: heap where
  "demo_heap = map PackageObject demo_workspace"

section \<open>Properties of the assembler\<close>

subsection \<open>What \<open>main\<close> returns\<close>

lemma main_Inl: "(main e opts = Inl err) = (resolve_input e opts = Inl err)"
  by (auto simp: main_def Let_def split: sum.splits)

lemma main_input:
  "main e opts = Inr cs \<Longrightarrow> c \<in> set cs \<Longrightarrow> resolve_input e opts = Inr (cfg_input c)"
  by (auto simp: main_def Let_def split: sum.splits if_splits)

lemma main_external:
  "main e opts = Inr cs \<Longrightarrow> c \<in> set cs \<Longrightarrow> cfg_external c = externals e opts"
  by (auto simp: main_def Let_def split: sum.splits if_splits)

lemma main_nonempty: "main e opts = Inr cs \<Longrightarrow> cs \<noteq> []"
  by (auto simp: main_def Let_def split: sum.splits if_splits)

lemma main_returns: "resolve_input e opts = Inr inp \<Longrightarrow> \<exists>cs. main e opts = Inr cs"
  by (simp add: main_def Let_def)

lemma main_Inr_resolve: "main e opts = Inr cs \<Longrightarrow> \<exists>inp. resolve_input e opts = Inr inp"
  by (cases "resolve_input e opts") (simp_all add: main_def)

lemma main_no_bundle:
  assumes "resolve_input e opts = Inr inp"
    and "\<not> truthy (opt_bundle opts)" and "\<not> truthy (pkg_bundle (pkg e))"
  shows "main e opts =
           Inr [\<lparr>cfg_plugins = base_plugins e, cfg_external = externals e opts, cfg_input = inp,
                 cfg_output = OutputList (main_module_outputs e opts), cfg_treeshake = None\<rparr>]"
  using assms by (simp add: main_def Let_def)

lemma main_bundle:
  assumes "resolve_input e opts = Inr inp"
    and "truthy (or_else (opt_bundle opts) (pkg_bundle (pkg e)))"
  shows "main e opts =
           Inr ([\<lparr>cfg_plugins = base_plugins e, cfg_external = externals e opts, cfg_input = inp,
                 cfg_output = OutputList (main_module_outputs e opts), cfg_treeshake = None\<rparr>,
                \<lparr>cfg_plugins = base_plugins e, cfg_external = externals e opts, cfg_input = inp,
                 cfg_output = OutputObject (umd_descriptor e opts (umd_file e opts)),
                 cfg_treeshake = Some False\<rparr>]
               @ (if is_production e opts then
                    [\<lparr>cfg_plugins = base_plugins e @ [Terser], cfg_external = externals e opts,
                      cfg_input = inp,
                      cfg_output = OutputObject (umd_descriptor e opts (min_file (umd_file e opts))),
                      cfg_treeshake = Some False\<rparr>]
                  else []))"
  using assms by (auto simp add: main_def Let_def or_else_def split: if_splits)

lemma umd_outputs_main_bundle:
  assumes "resolve_input e opts = Inr inp"
    and "truthy (or_else (opt_bundle opts) (pkg_bundle (pkg e)))"
  shows "umd_outputs (projr (main e opts)) =
           umd_descriptor e opts (umd_file e opts)
           # (if is_production e opts then [umd_descriptor e opts (min_file (umd_file e opts))]
              else [])"
  by (simp add: main_bundle [OF assms])

lemma truthy_or_else_right: "truthy b \<Longrightarrow> truthy (or_else a b)"
  by (simp add: or_else_def)

subsection \<open>Strings\<close>

lemma ends_with_iff: "ends_with f suf = (\<exists>stem. f = stem @ suf)"
proof
  assume "ends_with f suf"
  then have "f = take (length f - length suf) f @ suf"
    by (metis append_take_drop_id ends_with_def)
  then show "\<exists>stem. f = stem @ suf" ..
next
  assume "\<exists>stem. f = stem @ suf"
  then show "ends_with f suf" by (auto simp: ends_with_def)
qed

lemma min_file_js: "min_file (stem @ ''.js'') = stem @ ''.min.js''"
  by (simp add: min_file_def ends_with_def)

lemma min_file_other: "\<not> (\<exists>stem. f = stem @ ''.js'') \<Longrightarrow> min_file f = f"
  by (simp add: min_file_def ends_with_iff)

subsection \<open>The UMD descriptor and \<open>bundleOutput\<close>\<close>

lemma umd_descriptor_file:
  "bundleOutput_field ov_file e = None \<Longrightarrow> out_file (umd_descriptor e opts f) = f"
  by (simp add: umd_descriptor_def assign_overrides_def bundleOutput_field_def
           split: option.splits)

lemma umd_descriptor_footer:
  "bundleOutput_field ov_footer e = None \<Longrightarrow>
     out_footer (umd_descriptor e opts f) = umd_footer e"
  by (simp add: umd_descriptor_def assign_overrides_def bundleOutput_field_def
           split: option.splits)

lemma umd_descriptor_format:
  "bundleOutput_field ov_format e = None \<Longrightarrow> out_format (umd_descriptor e opts f) = ''umd''"
  by (simp add: umd_descriptor_def assign_overrides_def bundleOutput_field_def
           split: option.splits)

subsection \<open>The example package\<close>

lemma demo_env_sel [simp]:
  "pkg (demo_env m) = m" "projectFolder (demo_env m) = ''/proj''"
  "NODE_ENV (demo_env m) = None" "existsSync (demo_env m) = demo_exists"
  "path_join (demo_env m) a b = a @ ''/'' @ b"
  by (simp_all add: demo_env_def path_join_def demo_join_def)

lemma empty_project_sel [simp]:
  "pkg (empty_project m) = m" "projectFolder (empty_project m) = ''/proj''"
  "existsSync (empty_project m) p = False"
  "path_join (empty_project m) a b = a @ ''/'' @ b"
  by (simp_all add: empty_project_def demo_env_def path_join_def demo_join_def)

lemma options_sel [simp]:
  "opt_input no_options = None" "opt_bundle no_options = None" "opt_main no_options = None"
  "opt_module no_options = None" "opt_external no_options = None"
  "opt_excludedExternals no_options = None" "opt_production no_options = None"
  "opt_input production_options = None" "opt_bundle production_options = None"
  "opt_production production_options = Some True"
  "opt_main production_options = None" "opt_module production_options = None"
  "opt_input externals_options = None"
  "opt_external externals_options = Some [''lodash'', ''tslib'']"
  "opt_excludedExternals externals_options = Some [''tslib'']"
  by (simp_all add: no_options_def production_options_def externals_options_def)

lemma demo_resolve:
  "opt_input opts = None \<Longrightarrow> resolve_input (demo_env m) opts = Inr ''/proj/src/index.ts''"
  by (simp add: resolve_input_def demo_exists_def truthy_def str_def)

lemma empty_project_resolve:
  "opt_input opts = None \<Longrightarrow> resolve_input (empty_project m) opts = Inl EntryFileError"
  by (simp add: resolve_input_def truthy_def)

lemma path_join_nonempty: "path_join e a b \<noteq> []"
  by (simp add: path_join_def Let_def)

lemma demo_bundle:
  "opt_bundle opts = None \<Longrightarrow> pkg_bundle m = Some (c # cs) \<Longrightarrow>
     truthy (or_else (opt_bundle opts) (pkg_bundle (pkg (demo_env m))))"
  by (simp add: or_else_def truthy_def)

lemma demo_production: "is_production (demo_env m) production_options"
  by (simp add: is_production_def opt_production_value_def)

lemma demo_not_production: "\<not> is_production (demo_env m) no_options"
  by (simp add: is_production_def opt_production_value_def)

subsection \<open>Configurations for a UMD bundle in production\<close>

text \<open>
  Claim C1 says that a manifest with \<open>bundle\<close> set and \<open>production\<close> true yields exactly
  two configuration objects, one of them carrying both UMD descriptors. The code pushes
  the minified descriptor as a configuration of its own (it needs the extra
  \<open>terser\<close> plugin): for the example package the result has three configurations and
  two UMD descriptors. In a project without an entry file \<open>main\<close> returns nothing: it
  throws.
\<close>

theorem bundle_production_counterexample:
  "\<not> isl (main (demo_env demo_pkg) production_options)
   \<and> length (projr (main (demo_env demo_pkg) production_options)) = 3
   \<and> length (umd_outputs (projr (main (demo_env demo_pkg) production_options))) = 2
   \<and> main (empty_project demo_pkg) production_options = Inl EntryFileError"
proof -
  have t: "main (empty_project demo_pkg) production_options = Inl EntryFileError"
    by (simp add: main_Inl empty_project_resolve)
  have r: "resolve_input (demo_env demo_pkg) production_options = Inr ''/proj/src/index.ts''"
    by (simp add: demo_resolve)
  have b: "truthy (or_else (opt_bundle production_options) (pkg_bundle (pkg (demo_env demo_pkg))))"
    by (simp add: or_else_def truthy_def demo_pkg_def)
  show ?thesis
    using demo_production [of demo_pkg] t by (simp add: main_bundle [OF r b])
qed

text \<open>
  Claim C1, amended: when the entry file resolves, the manifest's \<open>bundle\<close> is set and
  the option \<open>production\<close> is true, \<open>main\<close> returns exactly three configurations. The
  first carries the list of main/module outputs (\<open>cjs\<close> when a CommonJS path is
  configured, then \<open>esm\<close> when an ESM path is). The second carries one descriptor, the
  unminified UMD one; the third carries one descriptor, the minified one, and has the
  plugins of the second followed by \<open>terser\<close>. Both have format \<open>umd\<close> unless
  \<open>bundleOutput\<close> replaces the format.
\<close>

theorem bundle_production_three_configs:
  assumes "resolve_input e opts = Inr inp"
    and "truthy (pkg_bundle (pkg e))"
    and "opt_production opts = Some True"
  shows "\<exists>c0 c1 c2 outs d1 d2.
           main e opts = Inr [c0, c1, c2]
           \<and> cfg_output c0 = OutputList outs
           \<and> map out_format outs =
               (if truthy (or_else (opt_main opts) (pkg_main (pkg e))) then [''cjs''] else [])
               @ (if truthy (or_else (opt_module opts) (pkg_module (pkg e))) then [''esm'']
                  else [])
           \<and> cfg_output c1 = OutputObject d1 \<and> cfg_output c2 = OutputObject d2
           \<and> Terser \<notin> set (cfg_plugins c1) \<and> cfg_plugins c2 = cfg_plugins c1 @ [Terser]
           \<and> (bundleOutput_field ov_format e = None \<longrightarrow>
                 out_format d1 = ''umd'' \<and> out_format d2 = ''umd'')"
proof -
  have prod: "is_production e opts"
    using assms(3) by (simp add: is_production_def opt_production_value_def)
  have fmts: "map out_format (main_module_outputs e opts) =
               (if truthy (or_else (opt_main opts) (pkg_main (pkg e))) then [''cjs''] else [])
               @ (if truthy (or_else (opt_module opts) (pkg_module (pkg e))) then [''esm'']
                  else [])"
    by (simp add: main_module_outputs_def)
  have noterser: "Terser \<notin> set (base_plugins e)"
    by (simp add: base_plugins_def)
  show ?thesis
    using prod fmts noterser
    by (simp add: main_bundle [OF assms(1) truthy_or_else_right [OF assms(2)]]
          umd_descriptor_format)
qed

theorem bundle_production_three_configs_witness:
  "\<exists>c0 c1 c2 outs d1 d2.
     main (demo_env demo_pkg) production_options = Inr [c0, c1, c2]
     \<and> cfg_output c0 = OutputList outs \<and> map out_format outs = [''cjs'', ''esm'']
     \<and> cfg_output c1 = OutputObject d1 \<and> cfg_output c2 = OutputObject d2
     \<and> Terser \<notin> set (cfg_plugins c1) \<and> cfg_plugins c2 = cfg_plugins c1 @ [Terser]
     \<and> out_format d1 = ''umd'' \<and> out_format d2 = ''umd''"
proof -
  have r: "resolve_input (demo_env demo_pkg) production_options = Inr ''/proj/src/index.ts''"
    by (simp add: demo_resolve)
  have b: "truthy (pkg_bundle (pkg (demo_env demo_pkg)))"
    by (simp add: truthy_def demo_pkg_def)
  have p: "opt_production production_options = Some True" by simp
  have nf: "bundleOutput_field ov_format (demo_env demo_pkg) = None"
    by (simp add: bundleOutput_field_def demo_pkg_def)
  have mm: "truthy (or_else (opt_main production_options) (pkg_main (pkg (demo_env demo_pkg))))"
    "truthy (or_else (opt_module production_options) (pkg_module (pkg (demo_env demo_pkg))))"
    by (simp_all add: or_else_def truthy_def demo_pkg_def)
  from bundle_production_three_configs [OF r b p] nf mm
  show ?thesis by (simp only: if_True append_Cons append_Nil simp_thms)
qed

subsection \<open>Externals\<close>

lemma set_externals:
  "set (externals e opts) =
     (supplied (opt_external opts) \<union> manifest_keys (pkg_peerDependencies (pkg e))
        \<union> manifest_keys (pkg_dependencies (pkg e)))
     - supplied (opt_excludedExternals opts)"
  by (auto simp: externals_def supplied_def manifest_keys_def or_empty_def Object_keys_def
           split: option.splits)

text \<open>
  Claim C2: for every manifest and options, the externals list of every configuration
  that \<open>main\<close> returns has as its members the caller's \<open>external\<close> list, united
  with the keys of \<open>peerDependencies\<close> and of \<open>dependencies\<close>, minus the caller's
  \<open>excludedExternals\<close>.
\<close>

theorem externals_union_minus_excluded:
  assumes "main e opts = Inr cs" and "c \<in> set cs"
  shows "set (cfg_external c) =
           (supplied (opt_external opts) \<union> manifest_keys (pkg_peerDependencies (pkg e))
              \<union> manifest_keys (pkg_dependencies (pkg e)))
           - supplied (opt_excludedExternals opts)"
  using main_external [OF assms] by (simp only: set_externals)

theorem externals_union_minus_excluded_witness:
  "\<not> isl (main (demo_env demo_pkg) externals_options)
   \<and> set (cfg_external (hd (projr (main (demo_env demo_pkg) externals_options))))
       = {''lodash'', ''pixi.js''}"
proof -
  have r: "resolve_input (demo_env demo_pkg) externals_options = Inr ''/proj/src/index.ts''"
    by (simp add: demo_resolve)
  from main_returns [OF r] obtain cs where
    cs: "main (demo_env demo_pkg) externals_options = Inr cs" ..
  from main_nonempty [OF cs] have "hd cs \<in> set cs" by simp
  from externals_union_minus_excluded [OF cs this]
  have "set (cfg_external (hd cs)) =
                (supplied (opt_external externals_options)
                   \<union> manifest_keys (pkg_peerDependencies (pkg (demo_env demo_pkg)))
                   \<union> manifest_keys (pkg_dependencies (pkg (demo_env demo_pkg))))
                - supplied (opt_excludedExternals externals_options)" .
  also have "\<dots> = {''lodash'', ''pixi.js''}"
    by (auto simp add: supplied_def manifest_keys_def demo_pkg_def)
  finally show ?thesis by (simp add: cs)
qed

subsection \<open>The entry file\<close>

lemma resolve_input_cases:
  "resolve_input e opts =
     (if truthy (opt_input opts) then Inr (str (opt_input opts))
      else if existsSync e (index_ts e) then Inr (index_ts e)
      else if existsSync e (index_js e) then Inr (index_js e)
      else Inl EntryFileError)"
  using path_join_nonempty [of e]
  by (auto simp: resolve_input_def Let_def truthy_def str_def index_ts_def index_js_def
           split: option.splits)

text \<open>
  Claim C3: the entry file is the caller's \<open>input\<close> when one is supplied (a non-empty
  string; the code does not look for that file), else \<open>src/index.ts\<close> of the project
  folder when it exists, else \<open>src/index.js\<close> when it exists; \<open>main\<close> throws the entry
  error exactly when none of the three is there.
\<close>

theorem entry_point_resolution:
  "(main e opts = Inl EntryFileError) =
     (\<not> truthy (opt_input opts) \<and> \<not> existsSync e (index_ts e)
      \<and> \<not> existsSync e (index_js e))
   \<and> (\<forall>cs c. main e opts = Inr cs \<and> c \<in> set cs \<longrightarrow>
         cfg_input c =
           (if truthy (opt_input opts) then str (opt_input opts)
            else if existsSync e (index_ts e) then index_ts e
            else index_js e))"
proof -
  note r = resolve_input_cases [of e opts]
  have a: "(main e opts = Inl EntryFileError) =
           (\<not> truthy (opt_input opts) \<and> \<not> existsSync e (index_ts e)
            \<and> \<not> existsSync e (index_js e))"
    by (simp add: main_Inl r)
  have b: "cfg_input c =
                 (if truthy (opt_input opts) then str (opt_input opts)
                  else if existsSync e (index_ts e) then index_ts e
                  else index_js e)" if "main e opts = Inr cs" "c \<in> set cs" for cs c
    using main_input [OF that] by (simp add: r split: if_splits)
  from a b show ?thesis by blast
qed

theorem entry_point_resolution_witness:
  "main (demo_env demo_pkg) no_options \<noteq> Inl EntryFileError
   \<and> cfg_input (hd (projr (main (demo_env demo_pkg) no_options))) = ''/proj/src/index.ts''
   \<and> main (empty_project demo_pkg) no_options = Inl EntryFileError"
proof -
  note t1 = entry_point_resolution [of "demo_env demo_pkg" no_options]
  note t2 = entry_point_resolution [of "empty_project demo_pkg" no_options]
  have ts: "existsSync (demo_env demo_pkg) (index_ts (demo_env demo_pkg))"
    "index_ts (demo_env demo_pkg) = ''/proj/src/index.ts''"
    by (simp_all add: index_ts_def demo_exists_def)
  have nt: "\<not> truthy (opt_input no_options)" by (simp add: truthy_def)
  from t1 ts nt have a: "main (demo_env demo_pkg) no_options \<noteq> Inl EntryFileError"
    by simp
  from demo_resolve [of no_options demo_pkg] main_returns obtain cs where
    cs: "main (demo_env demo_pkg) no_options = Inr cs" by fastforce
  from main_nonempty [OF cs] have "hd cs \<in> set cs" by simp
  with t1 cs ts nt have b: "cfg_input (hd cs) = ''/proj/src/index.ts''"
    by simp
  from t2 nt have c: "main (empty_project demo_pkg) no_options = Inl EntryFileError"
    by simp
  from a b c show ?thesis by (simp add: cs)
qed

subsection \<open>Main and module outputs without a bundle\<close>

text \<open>
  Claim C4 says that every manifest with \<open>main\<close> and \<open>module\<close> set and no \<open>bundle\<close>
  makes the assembler return one configuration. In a project with such a manifest and
  neither \<open>src/index.ts\<close> nor \<open>src/index.js\<close> (and no \<open>input\<close> given) \<open>main\<close> throws
  at line 111 and returns nothing.
\<close>

theorem main_and_module_counterexample:
  "main (empty_project main_module_pkg) no_options = Inl EntryFileError"
  by (simp add: main_Inl empty_project_resolve)

text \<open>
  Claim C4, amended: for a manifest with \<open>main\<close> and \<open>module\<close> set and no \<open>bundle\<close>,
  and a caller that overrides none of the three paths, \<open>main\<close> returns, whenever the
  entry file resolves, exactly one configuration; its output list holds exactly two
  descriptors, the first of format \<open>cjs\<close> at the manifest's \<open>main\<close> path, the second
  of format \<open>esm\<close> at the manifest's \<open>module\<close> path.
\<close>

theorem main_and_module_without_bundle:
  assumes "resolve_input e opts = Inr inp"
    and "truthy (pkg_main (pkg e))" and "truthy (pkg_module (pkg e))"
    and "\<not> truthy (pkg_bundle (pkg e))"
    and "opt_main opts = None" and "opt_module opts = None" and "opt_bundle opts = None"
  shows "\<exists>c d1 d2. main e opts = Inr [c] \<and> cfg_output c = OutputList [d1, d2]
           \<and> out_format d1 = ''cjs'' \<and> out_format d2 = ''esm''
           \<and> out_file d1 = path_join e (projectFolder e) (str (pkg_main (pkg e)))
           \<and> out_file d2 = path_join e (projectFolder e) (str (pkg_module (pkg e)))"
proof -
  have nb: "\<not> truthy (opt_bundle opts)" using assms(7) by (simp add: truthy_def)
  have outs: "\<exists>d1 d2. main_module_outputs e opts = [d1, d2]
           \<and> out_format d1 = ''cjs'' \<and> out_format d2 = ''esm''
           \<and> out_file d1 = path_join e (projectFolder e) (str (pkg_main (pkg e)))
           \<and> out_file d2 = path_join e (projectFolder e) (str (pkg_module (pkg e)))"
    using assms(2,3,5,6) by (simp add: main_module_outputs_def or_else_def truthy_def)
  show ?thesis
    using outs by (auto simp add: main_no_bundle [OF assms(1) nb assms(4)])
qed

theorem main_and_module_without_bundle_witness:
  "\<exists>c d1 d2. main (demo_env main_module_pkg) no_options = Inr [c]
     \<and> cfg_output c = OutputList [d1, d2]
     \<and> out_format d1 = ''cjs'' \<and> out_format d2 = ''esm''
     \<and> out_file d1 = ''/proj/lib/plugin.js'' \<and> out_file d2 = ''/proj/lib/plugin.es.js''"
proof -
  have r: "resolve_input (demo_env main_module_pkg) no_options = Inr ''/proj/src/index.ts''"
    by (simp add: demo_resolve)
  have m: "truthy (pkg_main (pkg (demo_env main_module_pkg)))"
    "truthy (pkg_module (pkg (demo_env main_module_pkg)))"
    "\<not> truthy (pkg_bundle (pkg (demo_env main_module_pkg)))"
    by (simp_all add: truthy_def main_module_pkg_def demo_pkg_def)
  have f: "path_join (demo_env main_module_pkg) (projectFolder (demo_env main_module_pkg))
             (str (pkg_main (pkg (demo_env main_module_pkg)))) = ''/proj/lib/plugin.js''"
    "path_join (demo_env main_module_pkg) (projectFolder (demo_env main_module_pkg))
             (str (pkg_module (pkg (demo_env main_module_pkg)))) = ''/proj/lib/plugin.es.js''"
    by (simp_all add: str_def main_module_pkg_def demo_pkg_def)
  from main_and_module_without_bundle
         [OF r m options_sel(3) options_sel(4) options_sel(2)]
  show ?thesis by (simp only: f)
qed

subsection \<open>The footer of the UMD descriptors\<close>

text \<open>
  Claim C5 says that a standalone package's UMD descriptors have no footer, and that
  every other package's UMD descriptor attaches the exports to the namespace object.
  Neither half holds for every manifest. A package that is not standalone but sets
  \<open>bundleNoExports\<close> to true gets no footer (line 158); and a footer given in
  \<open>bundleOutput\<close> is copied over the computed one by \<open>Object.assign\<close> (line 185), also
  for a standalone package.
\<close>

theorem umd_footer_counterexample:
  "map out_footer (umd_outputs (projr (main (demo_env no_exports_pkg) no_options))) = [None]
   \<and> map out_footer (umd_outputs (projr (main (demo_env standalone_footer_pkg) no_options)))
       = [Some ''Object.assign(this.PIXI, plugin);'']"
proof -
  have r: "resolve_input (demo_env m) no_options = Inr ''/proj/src/index.ts''" for m
    by (simp add: demo_resolve)
  have b1: "truthy (or_else (opt_bundle no_options) (pkg_bundle (pkg (demo_env no_exports_pkg))))"
    by (simp add: or_else_def truthy_def no_exports_pkg_def demo_pkg_def)
  have b2: "truthy (or_else (opt_bundle no_options)
                      (pkg_bundle (pkg (demo_env standalone_footer_pkg))))"
    by (simp add: or_else_def truthy_def standalone_footer_pkg_def demo_pkg_def)
  have f1: "out_footer (umd_descriptor (demo_env no_exports_pkg) no_options f) = None" for f
    by (simp add: umd_descriptor_def assign_overrides_def umd_footer_def is_standalone_def
          no_exports_pkg_def demo_pkg_def)
  have f2: "out_footer (umd_descriptor (demo_env standalone_footer_pkg) no_options f)
              = Some ''Object.assign(this.PIXI, plugin);''" for f
    by (simp add: umd_descriptor_def assign_overrides_def standalone_footer_pkg_def
          demo_pkg_def no_overrides_def)
  show ?thesis
    using demo_not_production
    by (simp add: umd_outputs_main_bundle [OF r b1] umd_outputs_main_bundle [OF r b2] f1 f2)
qed

text \<open>
  Claim C5, amended: when \<open>bundleOutput\<close> carries no \<open>footer\<close>, every UMD descriptor
  that \<open>main\<close> returns has no footer if the package is standalone or sets
  \<open>bundleNoExports\<close> to true, and otherwise has the footer that assigns the exports
  (the sanitised package name) to the namespace object.
\<close>

theorem umd_footer_policy:
  assumes "main e opts = Inr cs"
    and "d \<in> set (umd_outputs cs)"
    and "bundleOutput_field ov_footer e = None"
  shows "out_footer d =
           (if pkg_standalone (pkg e) = Some True then None
            else if pkg_bundleNoExports (pkg e) = Some True then None
            else Some (''if (typeof '' @ umd_name e @ '' !== '' @ [CHR 0x27] @ ''undefined''
                   @ [CHR 0x27] @ '') { Object.assign(this.'' @ umd_ns e @ '', ''
                   @ umd_name e @ ''); }''))"
proof -
  have f: "out_footer (umd_descriptor e opts f) =
                (if pkg_standalone (pkg e) = Some True then None
                 else if pkg_bundleNoExports (pkg e) = Some True then None
                 else Some (''if (typeof '' @ umd_name e @ '' !== '' @ [CHR 0x27] @ ''undefined''
                        @ [CHR 0x27] @ '') { Object.assign(this.'' @ umd_ns e @ '', ''
                        @ umd_name e @ ''); }''))" for f
    by (simp add: umd_descriptor_footer [OF assms(3)] umd_footer_def is_standalone_def)
  from main_Inr_resolve [OF assms(1)] obtain inp where r: "resolve_input e opts = Inr inp" ..
  show ?thesis
  proof (cases "truthy (or_else (opt_bundle opts) (pkg_bundle (pkg e)))")
    case True
    from assms(1,2) have "d \<in> set (umd_outputs (projr (main e opts)))" by simp
    then show ?thesis
      by (auto simp add: umd_outputs_main_bundle [OF r True] f split: if_splits)
  next
    case False
    then have "\<not> truthy (opt_bundle opts)" "\<not> truthy (pkg_bundle (pkg e))"
      by (auto simp: or_else_def split: if_splits)
    from main_no_bundle [OF r this] assms(1,2) show ?thesis by simp
  qed
qed

lemma demo_umd_name: "umd_name (demo_env demo_pkg) = ''_pixi_essentials_my_plugin''"
  by (simp add: umd_name_def demo_pkg_def is_lower_def)

theorem umd_footer_policy_witness:
  "umd_outputs (projr (main (demo_env standalone_pkg) production_options)) \<noteq> []
   \<and> out_footer (hd (umd_outputs (projr (main (demo_env standalone_pkg) production_options))))
       = None
   \<and> out_footer (hd (umd_outputs (projr (main (demo_env demo_pkg) production_options))))
       = Some (''if (typeof _pixi_essentials_my_plugin !== '' @ [CHR 0x27] @ ''undefined''
               @ [CHR 0x27]
               @ '') { Object.assign(this.PIXI, _pixi_essentials_my_plugin); }'')"
proof -
  have r: "resolve_input (demo_env m) production_options = Inr ''/proj/src/index.ts''" for m
    by (simp add: demo_resolve)
  have b1: "truthy (or_else (opt_bundle production_options)
                      (pkg_bundle (pkg (demo_env standalone_pkg))))"
    by (simp add: or_else_def truthy_def standalone_pkg_def demo_pkg_def)
  have b2: "truthy (or_else (opt_bundle production_options) (pkg_bundle (pkg (demo_env demo_pkg))))"
    by (simp add: or_else_def truthy_def demo_pkg_def)
  have n1: "bundleOutput_field ov_footer (demo_env standalone_pkg) = None"
    by (simp add: bundleOutput_field_def standalone_pkg_def demo_pkg_def)
  have n2: "bundleOutput_field ov_footer (demo_env demo_pkg) = None"
    by (simp add: bundleOutput_field_def demo_pkg_def)
  from main_returns [OF r] obtain cs1 where
    cs1: "main (demo_env standalone_pkg) production_options = Inr cs1" ..
  from main_returns [OF r] obtain cs2 where
    cs2: "main (demo_env demo_pkg) production_options = Inr cs2" ..
  from umd_outputs_main_bundle [OF r b1] cs1 have ne1: "umd_outputs cs1 \<noteq> []" by simp
  from umd_outputs_main_bundle [OF r b2] cs2 have ne2: "umd_outputs cs2 \<noteq> []" by simp
  have s1: "pkg_standalone (pkg (demo_env standalone_pkg)) = Some True"
    by (simp add: standalone_pkg_def)
  have s2: "pkg_standalone (pkg (demo_env demo_pkg)) \<noteq> Some True"
    "pkg_bundleNoExports (pkg (demo_env demo_pkg)) \<noteq> Some True"
    "umd_ns (demo_env demo_pkg) = ''PIXI''"
    by (simp_all add: demo_pkg_def umd_ns_def truthy_def)
  from ne1 have h1: "hd (umd_outputs cs1) \<in> set (umd_outputs cs1)" by simp
  from ne2 have h2: "hd (umd_outputs cs2) \<in> set (umd_outputs cs2)" by simp
  from umd_footer_policy [OF cs1 h1 n1] s1
  have a: "out_footer (hd (umd_outputs cs1)) = None"
    by simp
  from umd_footer_policy [OF cs2 h2 n2] s2
  have b: "out_footer (hd (umd_outputs cs2))
       = Some (''if (typeof _pixi_essentials_my_plugin !== '' @ [CHR 0x27] @ ''undefined''
               @ [CHR 0x27]
               @ '') { Object.assign(this.PIXI, _pixi_essentials_my_plugin); }'')"
    by (simp add: demo_umd_name)
  from ne1 a b show ?thesis by (simp add: cs1 cs2)
qed

subsection \<open>The file of the minified descriptor\<close>

text \<open>
  Claim C10 says that the minified UMD descriptor's file is the unminified one's with a
  final \<open>.js\<close> replaced by \<open>.min.js\<close>. \<open>Object.assign\<close> copies a \<open>file\<close> given in
  \<open>bundleOutput\<close> over both descriptors (lines 185 and 202): both then name that file,
  also when it ends in \<open>.js\<close>.
\<close>

theorem minified_file_counterexample:
  "map out_file (umd_outputs (projr (main (demo_env file_override_pkg) production_options)))
     = [''dist/bundle.js'', ''dist/bundle.js'']"
proof -
  have r: "resolve_input (demo_env file_override_pkg) production_options
             = Inr ''/proj/src/index.ts''"
    by (simp add: demo_resolve)
  have b: "truthy (or_else (opt_bundle production_options)
                     (pkg_bundle (pkg (demo_env file_override_pkg))))"
    by (simp add: or_else_def truthy_def file_override_pkg_def demo_pkg_def)
  have f: "out_file (umd_descriptor (demo_env file_override_pkg) production_options f)
             = ''dist/bundle.js''" for f
    by (simp add: umd_descriptor_def assign_overrides_def file_override_pkg_def demo_pkg_def
          no_overrides_def)
  show ?thesis
    using demo_production by (simp add: umd_outputs_main_bundle [OF r b] f)
qed

text \<open>
  Claim C10, amended: when \<open>bundleOutput\<close> carries no \<open>file\<close>, a UMD path is
  configured and production is on, the UMD descriptors \<open>main\<close> returns are exactly two;
  the first names the joined UMD path; if that path is \<open>stem.js\<close> the second names
  \<open>stem.min.js\<close>, and if it does not end in \<open>.js\<close> the second names the same file as
  the first.
\<close>

theorem minified_file_path:
  assumes "main e opts = Inr cs"
    and "truthy (or_else (opt_bundle opts) (pkg_bundle (pkg e)))"
    and "is_production e opts"
    and "bundleOutput_field ov_file e = None"
  shows "\<exists>d1 d2. umd_outputs cs = [d1, d2]
           \<and> out_file d1 = umd_file e opts
           \<and> (\<forall>stem. out_file d1 = stem @ ''.js'' \<longrightarrow> out_file d2 = stem @ ''.min.js'')
           \<and> ((\<forall>stem. out_file d1 \<noteq> stem @ ''.js'') \<longrightarrow> out_file d2 = out_file d1)"
proof -
  have a: "\<forall>stem. umd_file e opts = stem @ ''.js''
             \<longrightarrow> min_file (umd_file e opts) = stem @ ''.min.js''"
    using min_file_js by metis
  have b: "(\<forall>stem. umd_file e opts \<noteq> stem @ ''.js'')
             \<longrightarrow> min_file (umd_file e opts) = umd_file e opts"
    using min_file_other by blast
  from main_Inr_resolve [OF assms(1)] obtain inp where r: "resolve_input e opts = Inr inp" ..
  from umd_outputs_main_bundle [OF r assms(2)] assms(1,3)
  have "umd_outputs cs =
          [umd_descriptor e opts (umd_file e opts),
           umd_descriptor e opts (min_file (umd_file e opts))]"
    by simp
  then show ?thesis
    using a b by (simp add: umd_descriptor_file [OF assms(4)])
qed

theorem minified_file_path_witness:
  "map out_file (umd_outputs (projr (main (demo_env demo_pkg) production_options)))
     = [''/proj/dist/plugin.js'', ''/proj/dist/plugin.min.js'']
   \<and> map out_file (umd_outputs (projr (main (demo_env umd_suffix_pkg) production_options)))
     = [''/proj/dist/plugin.umd'', ''/proj/dist/plugin.umd'']"
proof -
  have r: "resolve_input (demo_env m) production_options = Inr ''/proj/src/index.ts''" for m
    by (simp add: demo_resolve)
  from main_returns [OF r] obtain cs1 where
    cs1: "main (demo_env demo_pkg) production_options = Inr cs1" ..
  from main_returns [OF r] obtain cs2 where
    cs2: "main (demo_env umd_suffix_pkg) production_options = Inr cs2" ..
  have b1: "truthy (or_else (opt_bundle production_options) (pkg_bundle (pkg (demo_env demo_pkg))))"
    by (simp add: or_else_def truthy_def demo_pkg_def)
  have b2: "truthy (or_else (opt_bundle production_options)
                      (pkg_bundle (pkg (demo_env umd_suffix_pkg))))"
    by (simp add: or_else_def truthy_def umd_suffix_pkg_def demo_pkg_def)
  have n1: "bundleOutput_field ov_file (demo_env demo_pkg) = None"
    by (simp add: bundleOutput_field_def demo_pkg_def)
  have n2: "bundleOutput_field ov_file (demo_env umd_suffix_pkg) = None"
    by (simp add: bundleOutput_field_def umd_suffix_pkg_def demo_pkg_def)
  have u1: "umd_file (demo_env demo_pkg) production_options = ''/proj/dist/plugin'' @ ''.js''"
    by (simp add: umd_file_def or_else_def truthy_def str_def demo_pkg_def)
  have u2: "umd_file (demo_env umd_suffix_pkg) production_options = ''/proj/dist/plugin.umd''"
    by (simp add: umd_file_def or_else_def truthy_def str_def umd_suffix_pkg_def demo_pkg_def)
  have "\<not> ends_with ''/proj/dist/plugin.umd'' ''.js''"
    by (simp add: ends_with_def)
  then have not_js: "\<forall>stem. ''/proj/dist/plugin.umd'' \<noteq> stem @ ''.js''"
    by (simp only: ends_with_iff) blast
  from minified_file_path [OF cs1 b1 demo_production n1] obtain d1 d2 where
    o1: "umd_outputs cs1 = [d1, d2]"
    and f1: "out_file d1 = umd_file (demo_env demo_pkg) production_options"
    and s1: "\<forall>stem. out_file d1 = stem @ ''.js'' \<longrightarrow> out_file d2 = stem @ ''.min.js''"
    by blast
  from s1 f1 u1 have "out_file d2 = ''/proj/dist/plugin'' @ ''.min.js''"
    by metis
  with o1 f1 u1 have a: "map out_file (umd_outputs cs1)
       = [''/proj/dist/plugin.js'', ''/proj/dist/plugin.min.js'']"
    by simp
  from minified_file_path [OF cs2 b2 demo_production n2] obtain e1 e2 where
    o2: "umd_outputs cs2 = [e1, e2]"
    and f2: "out_file e1 = umd_file (demo_env umd_suffix_pkg) production_options"
    and s2: "(\<forall>stem. out_file e1 \<noteq> stem @ ''.js'') \<longrightarrow> out_file e2 = out_file e1"
    by blast
  from s2 f2 u2 not_js have "out_file e2 = ''/proj/dist/plugin.umd''"
    by simp
  with o2 f2 u2 have b: "map out_file (umd_outputs cs2)
       = [''/proj/dist/plugin.umd'', ''/proj/dist/plugin.umd'']"
    by simp
  from a b show ?thesis by (simp add: cs1 cs2)
qed

section \<open>Properties of the runner\<close>

subsection \<open>The run as a loop over the selected packages\<close>

lemma runner_main_configured:
  "configured env t0 \<Longrightarrow>
     runner_main env t0 v = forEach (callback env t0 v) initial_state (selected_packages env)"
  by (simp add: runner_main_def configured_def resolved_tsconfigJson_def Let_def callback_def
        resolved_outDir_def selected_packages_def)

lemma runner_main_not_configured:
  "\<not> configured env t0 \<Longrightarrow>
     fst (runner_main env t0 v) = initial_state \<and> snd (runner_main env t0 v) \<noteq> None"
  by (auto simp add: runner_main_def configured_def resolved_tsconfigJson_def Let_def)

lemma forEach_append:
  "forEach f st (xs @ ys) =
     (case forEach f st xs of
        (st', None) \<Rightarrow> forEach f st' ys
      | (st', Some h) \<Rightarrow> (st', Some h))"
  by (induction xs arbitrary: st) (auto split: prod.splits option.splits)

lemma ensure_compilerState_console [simp]:
  "ensure_compilerState env (st\<lparr>console := c\<rparr>) cfg = ensure_compilerState env st cfg"
  by (simp add: ensure_compilerState_def)

lemma process_package_invocations:
  assumes "process_package env pf ts od v st p = (st', r)"
  shows "(r = None \<longrightarrow> invocations st' = invocations st @ [p])
         \<and> (invocations st' = invocations st \<or> invocations st' = invocations st @ [p])"
  using assms
  by (auto simp: process_package_def report_def print_def Let_def
           split: sum.splits if_splits)

text \<open>
  The invocations made by the loop are the packages of a front part of its list, in
  order; a loop that is not stopped has gone through the whole list.
\<close>

lemma forEach_invocations:
  assumes "forEach (process_package env pf ts od v) st ps = (st', r)"
  shows "\<exists>processed rest. ps = processed @ rest \<and> invocations st' = invocations st @ processed
           \<and> (r = None \<longrightarrow> rest = [])"
  using assms
proof (induction ps arbitrary: st)
  case Nil
  then show ?case by simp
next
  case (Cons p ps)
  obtain st1 r1 where step: "process_package env pf ts od v st p = (st1, r1)"
    by (cases "process_package env pf ts od v st p")
  note inv = process_package_invocations [OF step]
  show ?case
  proof (cases r1)
    case None
    with Cons.prems step have "forEach (process_package env pf ts od v) st1 ps = (st', r)"
      by simp
    from Cons.IH [OF this] obtain processed rest where
      "ps = processed @ rest" "invocations st' = invocations st1 @ processed"
      "r = None \<longrightarrow> rest = []" by blast
    with inv None have "p # ps = (p # processed) @ rest \<and>
        invocations st' = invocations st @ (p # processed) \<and> (r = None \<longrightarrow> rest = [])"
      by simp
    then show ?thesis by blast
  next
    case (Some h)
    with Cons.prems step have eq: "st' = st1" "r = Some h" by simp_all
    from inv have "invocations st1 = invocations st \<or> invocations st1 = invocations st @ [p]"
      by simp
    then show ?thesis
    proof
      assume "invocations st1 = invocations st"
      with eq have "p # ps = [] @ (p # ps) \<and> invocations st' = invocations st @ []
          \<and> (r = None \<longrightarrow> p # ps = [])" by simp
      then show ?thesis by blast
    next
      assume "invocations st1 = invocations st @ [p]"
      with eq have "p # ps = [p] @ ps \<and> invocations st' = invocations st @ [p]
          \<and> (r = None \<longrightarrow> ps = [])" by simp
      then show ?thesis by blast
    qed
  qed
qed

lemma forEach_invocations_initial:
  assumes "forEach (callback env t0 v) initial_state ps = (st, r)"
  shows "\<exists>processed rest. ps = processed @ rest \<and> invocations st = processed
           \<and> (r = None \<longrightarrow> rest = [])"
  using forEach_invocations [OF assms [unfolded callback_def]]
  by (simp add: initial_state_def)

subsection \<open>One package\<close>

lemma process_package_crash:
  assumes "ExtractorConfig_prepare env (extractor_args env pf ts od p) = Inr cfg"
    and "ensure_compilerState env st cfg = Inr cs"
    and "Extractor_invoke env cfg v cs = Inl ex"
  shows "process_package env pf ts od v st p =
           (\<lparr>console = console st @
               [(Stdout, header p), (Stdout, m_name p @ '' failed:''), (Stderr, ex)],
             invocations = invocations st @ [p], compilerState = Some cs\<rparr>, Some (Exit 1))"
  using assms by (simp add: process_package_def Let_def print_def)

lemma process_package_prepare_crash:
  assumes "ExtractorConfig_prepare env (extractor_args env pf ts od p) = Inl ex"
  shows "process_package env pf ts od v st p =
           (\<lparr>console = console st @ [(Stdout, header p)],
             invocations = invocations st, compilerState = compilerState st\<rparr>,
            Some (Uncaught ex))"
  using assms by (simp add: process_package_def Let_def print_def)

lemma process_package_create_crash:
  assumes "ExtractorConfig_prepare env (extractor_args env pf ts od p) = Inr cfg"
    and "ensure_compilerState env st cfg = Inl ex"
  shows "process_package env pf ts od v st p =
           (\<lparr>console = console st @ [(Stdout, header p)],
             invocations = invocations st, compilerState = compilerState st\<rparr>,
            Some (Uncaught ex))"
  using assms by (simp add: process_package_def Let_def print_def)

lemma process_package_unsuccessful:
  assumes "ExtractorConfig_prepare env (extractor_args env pf ts od p) = Inr cfg"
    and "ensure_compilerState env st cfg = Inr cs"
    and "Extractor_invoke env cfg v cs = Inr r"
    and "\<not> succeeded r"
  shows "process_package env pf ts od v st p =
           (\<lparr>console = console st @
               [(Stdout, header p),
                (Stderr, m_name p @ '': completed with '' @ string_of_nat (errorCount r)
                   @ '' errors and '' @ string_of_nat (warningCount r) @ '' warnings'')],
             invocations = invocations st @ [p], compilerState = Some cs\<rparr>,
            if errorCount r = 0 then None else Some (Exit 1))"
  using assms by (simp add: process_package_def Let_def print_def report_def)

lemma process_package_succeeded:
  assumes "ExtractorConfig_prepare env (extractor_args env pf ts od p) = Inr cfg"
    and "ensure_compilerState env st cfg = Inr cs"
    and "Extractor_invoke env cfg v cs = Inr r"
    and "succeeded r"
  shows "process_package env pf ts od v st p =
           (\<lparr>console = console st @
               [(Stdout, header p), (Stderr, m_name p @ '': completed successfully!'')],
             invocations = invocations st @ [p], compilerState = Some cs\<rparr>, None)"
  using assms by (simp add: process_package_def Let_def print_def report_def)

lemma length_selected_packages:
  "length (selected_packages env) = length (packages_with_entry env)"
  by (simp add: selected_packages_def packageJsons_def projectPackageJsons_def filter_map
        o_def has_entry_def package_manifest.extend_def packages_with_entry_def)

subsection \<open>The example workspace\<close>

lemma packageJson_extractor_args: "packageJson (extractor_args env pf ts od p) = p"
  by (simp add: extractor_args_def Let_def)

lemma demo_runner_sel:
  "cwd (demo_runner_env tool) = ''/ws''"
  "fs_existsSync (demo_runner_env tool) = demo_files"
  "join (demo_runner_env tool) = demo_join"
  "getPackages (demo_runner_env tool) folder = demo_workspace"
  "require_tsconfig (demo_runner_env tool) path = demo_tsconfig"
  "ExtractorConfig_prepare (demo_runner_env tool) args = Inr args"
  "CompilerState_create (demo_runner_env tool) cfg = Inr ()"
  "Extractor_invoke (demo_runner_env tool) cfg v cs = tool (m_name (packageJson cfg))"
  by (simp_all add: demo_runner_env_def)

lemma demo_configured: "configured (demo_runner_env tool) None"
  by (simp add: configured_def resolved_tsconfigJson_def demo_runner_sel truthy_def
        demo_join_def demo_files_def has_outDir_def demo_tsconfig_def)

lemma demo_selected: "selected_packages (demo_runner_env tool) = [demo_a, demo_b]"
  by (simp add: selected_packages_def packageJsons_def projectPackageJsons_def demo_runner_sel
        demo_workspace_def has_entry_def toJSON_def package_manifest.extend_def demo_join_def
        demo_files_def demo_a_def demo_b_def)

lemma demo_packages_with_entry: "length (packages_with_entry (demo_runner_env tool)) = 2"
  by (simp add: packages_with_entry_def demo_runner_sel demo_workspace_def demo_join_def
        demo_files_def)

lemma demo_prepare:
  "ExtractorConfig_prepare (demo_runner_env tool)
     (extractor_args (demo_runner_env tool) (cwd (demo_runner_env tool))
        (resolved_tsconfigJson (demo_runner_env tool) None)
        (resolved_outDir (demo_runner_env tool) None) p)
   = Inr (demo_cfg tool p)"
  by (simp add: demo_runner_sel(6) demo_cfg_def)

lemma demo_ensure: "ensure_compilerState (demo_runner_env tool) st cfg = Inr ()"
  by (simp add: ensure_compilerState_def demo_runner_sel split: option.splits)

lemma demo_invoke:
  "Extractor_invoke (demo_runner_env tool) (demo_cfg tool p) v () = tool (m_name p)"
  by (simp add: demo_runner_sel demo_cfg_def packageJson_extractor_args)

lemma forEach_Nil_demo:
  "forEach (callback (demo_runner_env tool) None v) initial_state [] = (initial_state, None)"
  by simp

lemma header_a: "header demo_a = ''a ---------------------------------------------''"
  by (simp add: header_def demo_a_def eval_nat_numeral)

lemma header_b: "header demo_b = ''b ---------------------------------------------''"
  by (simp add: header_def demo_b_def eval_nat_numeral)

lemma demo_callback_crash:
  "tool (m_name p) = Inl ex \<Longrightarrow>
   callback (demo_runner_env tool) None v st p =
     (\<lparr>console = console st @
         [(Stdout, header p), (Stdout, m_name p @ '' failed:''), (Stderr, ex)],
       invocations = invocations st @ [p], compilerState = Some ()\<rparr>, Some (Exit 1))"
  unfolding callback_def
  by (rule process_package_crash [OF demo_prepare demo_ensure]) (simp add: demo_invoke)

lemma demo_callback_unsuccessful:
  "tool (m_name p) = Inr r \<Longrightarrow> \<not> succeeded r \<Longrightarrow>
   callback (demo_runner_env tool) None v st p =
     (\<lparr>console = console st @
         [(Stdout, header p),
          (Stderr, m_name p @ '': completed with '' @ string_of_nat (errorCount r)
             @ '' errors and '' @ string_of_nat (warningCount r) @ '' warnings'')],
       invocations = invocations st @ [p], compilerState = Some ()\<rparr>,
      if errorCount r = 0 then None else Some (Exit 1))"
  unfolding callback_def
  by (rule process_package_unsuccessful [OF demo_prepare demo_ensure]) (simp_all add: demo_invoke)

lemma demo_callback_succeeded:
  "tool (m_name p) = Inr r \<Longrightarrow> succeeded r \<Longrightarrow>
   callback (demo_runner_env tool) None v st p =
     (\<lparr>console = console st @
         [(Stdout, header p), (Stderr, m_name p @ '': completed successfully!'')],
       invocations = invocations st @ [p], compilerState = Some ()\<rparr>, None)"
  unfolding callback_def
  by (rule process_package_succeeded [OF demo_prepare demo_ensure]) (simp_all add: demo_invoke)

lemma crash_envs_configured:
  "configured prepare_crash_env None" "configured create_crash_env None"
  by (simp_all add: prepare_crash_env_def create_crash_env_def configured_def
        resolved_tsconfigJson_def demo_runner_env_def truthy_def demo_join_def demo_files_def
        has_outDir_def demo_tsconfig_def)

lemma crash_envs_selected:
  "selected_packages prepare_crash_env = [demo_a, demo_b]"
  "selected_packages create_crash_env = [demo_a, demo_b]"
  by (simp_all add: prepare_crash_env_def create_crash_env_def selected_packages_def
        packageJsons_def projectPackageJsons_def demo_runner_env_def demo_workspace_def
        has_entry_def toJSON_def package_manifest.extend_def demo_join_def demo_files_def
        demo_a_def demo_b_def)

lemma prepare_crash_env_prepare:
  "ExtractorConfig_prepare prepare_crash_env args = Inl ''Error: bad config''"
  by (simp add: prepare_crash_env_def)

lemma create_crash_env_prepare: "ExtractorConfig_prepare create_crash_env args = Inr args"
  by (simp add: create_crash_env_def demo_runner_env_def)

lemma create_crash_env_ensure:
  "ensure_compilerState create_crash_env initial_state cfg = Inl ''Error: no program''"
  by (simp add: ensure_compilerState_def create_crash_env_def initial_state_def)

lemma prepare_crash_run:
  "runner_main prepare_crash_env None None =
     (\<lparr>console = [(Stdout, ''a ---------------------------------------------'')],
       invocations = [], compilerState = None\<rparr>, Some (Uncaught ''Error: bad config''))"
  by (simp add: runner_main_configured [OF crash_envs_configured(1)] crash_envs_selected
        callback_def process_package_prepare_crash [OF prepare_crash_env_prepare] header_a
        initial_state_def)

lemma demo_crash_run:
  "runner_main (demo_runner_env crashing) None None =
     (\<lparr>console = [(Stdout, ''a ---------------------------------------------''),
                  (Stdout, ''a failed:''), (Stderr, ''Error: boom'')],
       invocations = [demo_a], compilerState = Some ()\<rparr>, Some (Exit 1))"
proof -
  have c: "crashing (m_name demo_a) = Inl ''Error: boom''"
    by (simp add: crashing_def demo_a_def)
  show ?thesis
    by (simp add: runner_main_configured [OF demo_configured] demo_selected
          demo_callback_crash [of crashing demo_a, OF c] header_a initial_state_def)
       (simp add: demo_a_def)
qed

lemma demo_warnings_run:
  "runner_main (demo_runner_env warnings_only) None None =
     (\<lparr>console = [(Stdout, ''a ---------------------------------------------''),
                  (Stderr, ''a: completed with 0 errors and 2 warnings''),
                  (Stdout, ''b ---------------------------------------------''),
                  (Stderr, ''b: completed successfully!'')],
       invocations = [demo_a, demo_b], compilerState = Some ()\<rparr>, None)"
proof -
  have a: "warnings_only (m_name demo_a)
             = Inr \<lparr>succeeded = False, errorCount = 0, warningCount = 2\<rparr>"
    by (simp add: warnings_only_def demo_a_def)
  have b: "warnings_only (m_name demo_b) = Inr ok_result"
    by (simp add: warnings_only_def demo_b_def)
  have n: "string_of_nat 0 = ''0''" "string_of_nat 2 = ''2''"
    by code_simp+
  show ?thesis
    by (simp add: runner_main_configured [OF demo_configured] demo_selected
          demo_callback_unsuccessful [of warnings_only demo_a, OF a]
          demo_callback_succeeded [of warnings_only demo_b, OF b]
          header_a header_b initial_state_def ok_result_def n)
       (simp add: demo_a_def demo_b_def)
qed

subsection \<open>A crash of the extraction tool\<close>

text \<open>
  Claim C6 says that any exception of the extraction tool, thrown while a package is
  processed, is logged by the runner and ends the process with a failure exit code. The
  \<open>try\<close> of lines 91 to 100 holds \<open>Extractor.invoke\<close> alone. \<open>ExtractorConfig.prepare\<close>
  (line 50) and \<open>CompilerState.create\<close> (line 85) are called for the package outside
  it: with a tool whose \<open>prepare\<close> throws on the first package, the run prints the
  header and nothing more, and ends on the exception that nothing caught, not on
  \<open>process.exit(1)\<close>.
\<close>

theorem extraction_crash_counterexample:
  "runner_main prepare_crash_env None None =
     (\<lparr>console = [(Stdout, ''a ---------------------------------------------'')],
       invocations = [], compilerState = None\<rparr>, Some (Uncaught ''Error: bad config''))"
  by (rule prepare_crash_run)

text \<open>
  Claim C6, amended: let the tool throw while a package \<open>p\<close> is processed. If
  \<open>Extractor.invoke\<close> throws, the runner prints \<open>p failed:\<close> and the exception and
  calls \<open>process.exit(1)\<close>. If \<open>ExtractorConfig.prepare\<close> or \<open>CompilerState.create\<close>
  throws, the runner catches nothing: after the header of \<open>p\<close> the exception leaves
  \<open>main\<close>, with no line of the runner about it and no \<open>process.exit\<close>. In all three
  cases the run ends there, whatever packages \<open>rest\<close> were still to come: the
  invocations made are those of the packages before \<open>p\<close>, and of \<open>p\<close> when
  \<open>Extractor.invoke\<close> was reached.
\<close>

theorem extraction_crash_terminates:
  assumes "configured env t0"
    and "selected_packages env = before @ p # rest"
    and "forEach (callback env t0 v) initial_state before = (st, None)"
    and "args =
           extractor_args env (cwd env) (resolved_tsconfigJson env t0) (resolved_outDir env t0) p"
  shows "(\<forall>cfg cs ex.
            ExtractorConfig_prepare env args = Inr cfg
            \<and> ensure_compilerState env st cfg = Inr cs
            \<and> Extractor_invoke env cfg v cs = Inl ex \<longrightarrow>
            runner_main env t0 v =
              (\<lparr>console = console st @
                  [(Stdout, header p), (Stdout, m_name p @ '' failed:''), (Stderr, ex)],
                invocations = before @ [p], compilerState = Some cs\<rparr>, Some (Exit 1)))
         \<and> (\<forall>ex.
            ExtractorConfig_prepare env args = Inl ex \<longrightarrow>
            runner_main env t0 v =
              (\<lparr>console = console st @ [(Stdout, header p)],
                invocations = before, compilerState = compilerState st\<rparr>,
               Some (Uncaught ex)))
         \<and> (\<forall>cfg ex.
            ExtractorConfig_prepare env args = Inr cfg
            \<and> ensure_compilerState env st cfg = Inl ex \<longrightarrow>
            runner_main env t0 v =
              (\<lparr>console = console st @ [(Stdout, header p)],
                invocations = before, compilerState = compilerState st\<rparr>,
               Some (Uncaught ex)))"
proof -
  from forEach_invocations_initial [OF assms(3)] have inv: "invocations st = before"
    by auto
  have run: "runner_main env t0 v = callback env t0 v st p" if "snd (callback env t0 v st p) \<noteq> None"
    using that
    by (cases "callback env t0 v st p")
       (auto simp add: runner_main_configured [OF assms(1)] assms(2) forEach_append assms(3))
  have a: "runner_main env t0 v =
              (\<lparr>console = console st @
                  [(Stdout, header p), (Stdout, m_name p @ '' failed:''), (Stderr, ex)],
                invocations = before @ [p], compilerState = Some cs\<rparr>, Some (Exit 1))"
    if "ExtractorConfig_prepare env args = Inr cfg" "ensure_compilerState env st cfg = Inr cs"
      "Extractor_invoke env cfg v cs = Inl ex" for cfg cs ex
  proof -
    have "callback env t0 v st p =
           (\<lparr>console = console st @
               [(Stdout, header p), (Stdout, m_name p @ '' failed:''), (Stderr, ex)],
             invocations = invocations st @ [p], compilerState = Some cs\<rparr>, Some (Exit 1))"
      unfolding callback_def
      by (rule process_package_crash [OF that(1) [unfolded assms(4)] that(2,3)])
    with run show ?thesis by (simp add: inv)
  qed
  have b: "runner_main env t0 v =
              (\<lparr>console = console st @ [(Stdout, header p)],
                invocations = before, compilerState = compilerState st\<rparr>,
               Some (Uncaught ex))"
    if "ExtractorConfig_prepare env args = Inl ex" for ex
  proof -
    have "callback env t0 v st p =
           (\<lparr>console = console st @ [(Stdout, header p)],
             invocations = invocations st, compilerState = compilerState st\<rparr>,
            Some (Uncaught ex))"
      unfolding callback_def
      by (rule process_package_prepare_crash [OF that [unfolded assms(4)]])
    with run show ?thesis by (simp add: inv)
  qed
  have c: "runner_main env t0 v =
              (\<lparr>console = console st @ [(Stdout, header p)],
                invocations = before, compilerState = compilerState st\<rparr>,
               Some (Uncaught ex))"
    if "ExtractorConfig_prepare env args = Inr cfg" "ensure_compilerState env st cfg = Inl ex"
    for cfg ex
  proof -
    have "callback env t0 v st p =
           (\<lparr>console = console st @ [(Stdout, header p)],
             invocations = invocations st, compilerState = compilerState st\<rparr>,
            Some (Uncaught ex))"
      unfolding callback_def
      by (rule process_package_create_crash [OF that(1) [unfolded assms(4)] that(2)])
    with run show ?thesis by (simp add: inv)
  qed
  from a b c show ?thesis by blast
qed

theorem extraction_crash_terminates_witness:
  "runner_main (demo_runner_env crashing) None None =
     (\<lparr>console = [(Stdout, ''a ---------------------------------------------''),
                  (Stdout, ''a failed:''), (Stderr, ''Error: boom'')],
       invocations = [demo_a], compilerState = Some ()\<rparr>, Some (Exit 1))
   \<and> runner_main prepare_crash_env None None =
       (\<lparr>console = [(Stdout, ''a ---------------------------------------------'')],
         invocations = [], compilerState = None\<rparr>, Some (Uncaught ''Error: bad config''))
   \<and> runner_main create_crash_env None None =
       (\<lparr>console = [(Stdout, ''a ---------------------------------------------'')],
         invocations = [], compilerState = None\<rparr>, Some (Uncaught ''Error: no program''))"
proof -
  have sel: "selected_packages (demo_runner_env crashing) = [] @ demo_a # [demo_b]"
    by (simp add: demo_selected)
  have sel2: "selected_packages prepare_crash_env = [] @ demo_a # [demo_b]"
    "selected_packages create_crash_env = [] @ demo_a # [demo_b]"
    by (simp_all add: crash_envs_selected)
  have nil: "forEach (callback env None None) initial_state [] = (initial_state, None)"
    for env :: "(prepare_args, unit) runner_env"
    by simp
  have thr: "Extractor_invoke (demo_runner_env crashing) (demo_cfg crashing demo_a) None ()
               = Inl ''Error: boom''"
    by (simp add: demo_invoke crashing_def demo_a_def)
  note t1 = extraction_crash_terminates [OF demo_configured sel nil refl]
  note t2 = extraction_crash_terminates [OF crash_envs_configured(1) sel2(1) nil refl]
  note t3 = extraction_crash_terminates [OF crash_envs_configured(2) sel2(2) nil refl]
  from t1 demo_prepare [of crashing demo_a] demo_ensure [of crashing initial_state] thr
  have a: "runner_main (demo_runner_env crashing) None None =
     (\<lparr>console = [(Stdout, ''a ---------------------------------------------''),
                  (Stdout, ''a failed:''), (Stderr, ''Error: boom'')],
       invocations = [demo_a], compilerState = Some ()\<rparr>, Some (Exit 1))"
    by (simp add: header_a [unfolded demo_a_def] initial_state_def demo_a_def)
  from t2 prepare_crash_env_prepare
  have b: "runner_main prepare_crash_env None None =
       (\<lparr>console = [(Stdout, ''a ---------------------------------------------'')],
         invocations = [], compilerState = None\<rparr>, Some (Uncaught ''Error: bad config''))"
    by (simp add: header_a initial_state_def)
  from t3 create_crash_env_prepare create_crash_env_ensure
  have c: "runner_main create_crash_env None None =
       (\<lparr>console = [(Stdout, ''a ---------------------------------------------'')],
         invocations = [], compilerState = None\<rparr>, Some (Uncaught ''Error: no program''))"
    by (simp add: header_a initial_state_def)
  from a b c show ?thesis by simp
qed

subsection \<open>An extraction that completes unsuccessfully\<close>

text \<open>
  Claim C7: when \<open>Extractor.invoke\<close> returns for a package \<open>p\<close> with \<open>succeeded\<close>
  false, the runner prints the error and warning counts; with a nonzero error count it
  calls \<open>process.exit(1)\<close> and the run ends there, and with an error count of zero the
  run goes on with the packages \<open>rest\<close> that follow \<open>p\<close>.
\<close>

theorem unsuccessful_extraction_policy:
  assumes "configured env t0"
    and "selected_packages env = before @ p # rest"
    and "forEach (callback env t0 v) initial_state before = (st, None)"
    and "ExtractorConfig_prepare env
           (extractor_args env (cwd env) (resolved_tsconfigJson env t0) (resolved_outDir env t0) p)
         = Inr cfg"
    and "ensure_compilerState env st cfg = Inr cs"
    and "Extractor_invoke env cfg v cs = Inr r"
    and "\<not> succeeded r"
    and "reported =
           \<lparr>console = console st @
               [(Stdout, header p),
                (Stderr, m_name p @ '': completed with '' @ string_of_nat (errorCount r)
                   @ '' errors and '' @ string_of_nat (warningCount r) @ '' warnings'')],
             invocations = before @ [p], compilerState = Some cs\<rparr>"
  shows "(errorCount r \<noteq> 0 \<longrightarrow> runner_main env t0 v = (reported, Some (Exit 1)))
         \<and> (errorCount r = 0 \<longrightarrow>
               runner_main env t0 v = forEach (callback env t0 v) reported rest)"
proof -
  from forEach_invocations_initial [OF assms(3)] have inv: "invocations st = before"
    by auto
  have step: "callback env t0 v st p =
           (reported, if errorCount r = 0 then None else Some (Exit 1))"
    unfolding callback_def assms(8) inv [symmetric]
    by (rule process_package_unsuccessful [OF assms(4,5,6,7)])
  show ?thesis
    by (simp add: runner_main_configured [OF assms(1)] assms(2) forEach_append assms(3) step)
qed

theorem unsuccessful_extraction_policy_witness:
  "runner_main (demo_runner_env with_errors) None None =
     (\<lparr>console = [(Stdout, ''a ---------------------------------------------''),
                  (Stderr, ''a: completed with 3 errors and 1 warnings'')],
       invocations = [demo_a], compilerState = Some ()\<rparr>, Some (Exit 1))
   \<and> runner_main (demo_runner_env warnings_only) None None =
       forEach (callback (demo_runner_env warnings_only) None None)
         \<lparr>console = [(Stdout, ''a ---------------------------------------------''),
                     (Stderr, ''a: completed with 0 errors and 2 warnings'')],
          invocations = [demo_a], compilerState = Some ()\<rparr>
         [demo_b]"
proof -
  have sel: "selected_packages (demo_runner_env tool) = [] @ demo_a # [demo_b]" for tool
    by (simp add: demo_selected)
  have e: "Extractor_invoke (demo_runner_env with_errors) (demo_cfg with_errors demo_a) None ()
             = Inr \<lparr>succeeded = False, errorCount = 3, warningCount = 1\<rparr>"
    by (simp add: demo_invoke with_errors_def demo_a_def)
  have w: "Extractor_invoke (demo_runner_env warnings_only) (demo_cfg warnings_only demo_a) None ()
             = Inr \<lparr>succeeded = False, errorCount = 0, warningCount = 2\<rparr>"
    by (simp add: demo_invoke warnings_only_def demo_a_def)
  have n: "string_of_nat 0 = ''0''" "string_of_nat (Suc 0) = ''1''" "string_of_nat 2 = ''2''"
    "string_of_nat 3 = ''3''"
    by code_simp+
  have na: "m_name demo_a = ''a''" by (simp add: demo_a_def)
  from unsuccessful_extraction_policy
         [OF demo_configured sel forEach_Nil_demo demo_prepare demo_ensure e _ refl]
  have a: "runner_main (demo_runner_env with_errors) None None =
     (\<lparr>console = [(Stdout, ''a ---------------------------------------------''),
                  (Stderr, ''a: completed with 3 errors and 1 warnings'')],
       invocations = [demo_a], compilerState = Some ()\<rparr>, Some (Exit 1))"
    by (simp add: header_a initial_state_def n na)
  from unsuccessful_extraction_policy
         [OF demo_configured sel forEach_Nil_demo demo_prepare demo_ensure w _ refl]
  have b: "runner_main (demo_runner_env warnings_only) None None =
       forEach (callback (demo_runner_env warnings_only) None None)
         \<lparr>console = [(Stdout, ''a ---------------------------------------------''),
                     (Stderr, ''a: completed with 0 errors and 2 warnings'')],
          invocations = [demo_a], compilerState = Some ()\<rparr>
         [demo_b]"
    by (simp add: header_a initial_state_def n na)
  from a b show ?thesis ..
qed

subsection \<open>The number of extraction invocations\<close>

lemma selected_packages_with_entry:
  "selected_packages env = projectPackageJsons (packages_with_entry env)"
  by (simp add: selected_packages_def packageJsons_def projectPackageJsons_def filter_map
        o_def has_entry_def package_manifest.extend_def packages_with_entry_def)

text \<open>
  Claim C8 says that a workspace in which M packages have \<open>src/index.ts\<close> always sees
  exactly M invocations. A run is cut short by \<open>process.exit(1)\<close> when an extraction
  crashes or reports errors: in the example workspace two packages have the entry file,
  and with a tool that crashes on the first the run makes one invocation.
\<close>

theorem extraction_invocations_counterexample:
  "length (packages_with_entry (demo_runner_env crashing)) = 2
   \<and> length (invocations (fst (runner_main (demo_runner_env crashing) None None))) = 1"
  by (simp add: demo_packages_with_entry demo_crash_run)

text \<open>
  Claim C8, amended: in every run that reaches the end of the loop (no \<open>process.exit\<close>,
  no exception that escapes) the invocations are exactly the JSON copies of the packages
  that have \<open>src/index.ts\<close>, one each, in workspace order, so there are M of them. In
  every run, stopped or not, the invocations are a front part of that list: at most M,
  none for a package without the entry file, none twice.
\<close>

theorem extraction_invocations:
  "(\<exists>rest. projectPackageJsons (packages_with_entry env)
             = invocations (fst (runner_main env t0 v)) @ rest)
   \<and> length (invocations (fst (runner_main env t0 v))) \<le> length (packages_with_entry env)
   \<and> (snd (runner_main env t0 v) = None \<longrightarrow>
        invocations (fst (runner_main env t0 v)) = projectPackageJsons (packages_with_entry env)
        \<and> length (invocations (fst (runner_main env t0 v)))
            = length (packages_with_entry env))"
proof -
  have ab: "(\<exists>rest. selected_packages env = invocations (fst (runner_main env t0 v)) @ rest)
     \<and> (snd (runner_main env t0 v) = None \<longrightarrow>
              invocations (fst (runner_main env t0 v)) = selected_packages env)"
  proof (cases "configured env t0")
    case True
    obtain st r where
      run: "forEach (callback env t0 v) initial_state (selected_packages env) = (st, r)"
      by (cases "forEach (callback env t0 v) initial_state (selected_packages env)")
    have m: "runner_main env t0 v = (st, r)"
      by (simp add: runner_main_configured [OF True] run)
    from forEach_invocations_initial [OF run] obtain rest where
      sel: "selected_packages env = invocations st @ rest" and fin: "r = None \<longrightarrow> rest = []"
      by blast
    have "\<exists>rest. selected_packages env = invocations (fst (runner_main env t0 v)) @ rest"
      using sel by (simp add: m)
    moreover have "snd (runner_main env t0 v) = None \<longrightarrow>
              invocations (fst (runner_main env t0 v)) = selected_packages env"
      using sel fin by (simp add: m)
    ultimately show ?thesis ..
  next
    case False
    from runner_main_not_configured [OF False, of v] show ?thesis
      by (auto simp add: initial_state_def)
  qed
  then have a: "\<exists>rest. selected_packages env = invocations (fst (runner_main env t0 v)) @ rest"
    and b: "snd (runner_main env t0 v) = None \<longrightarrow>
              invocations (fst (runner_main env t0 v)) = selected_packages env"
    by simp_all
  from a obtain rest where
    r: "selected_packages env = invocations (fst (runner_main env t0 v)) @ rest" ..
  have "length (selected_packages env)
          = length (invocations (fst (runner_main env t0 v))) + length rest"
    by (subst r) simp
  then have c: "length (invocations (fst (runner_main env t0 v)))
                  \<le> length (packages_with_entry env)"
    by (simp add: length_selected_packages)
  from a b c show ?thesis
    by (auto simp add: selected_packages_with_entry [symmetric] length_selected_packages)
qed

theorem extraction_invocations_witness:
  "snd (runner_main (demo_runner_env warnings_only) None None) = None
   \<and> invocations (fst (runner_main (demo_runner_env warnings_only) None None))
       = [demo_a, demo_b]
   \<and> length (packages_with_entry (demo_runner_env warnings_only)) = 2
   \<and> length (getPackages (demo_runner_env warnings_only) (cwd (demo_runner_env warnings_only)))
       = 3"
proof -
  have fin: "snd (runner_main (demo_runner_env warnings_only) None None) = None"
    by (simp add: demo_warnings_run)
  from extraction_invocations [of "demo_runner_env warnings_only" None None] fin
  have "invocations (fst (runner_main (demo_runner_env warnings_only) None None))
          = projectPackageJsons (packages_with_entry (demo_runner_env warnings_only))"
    by blast
  also have "\<dots> = [demo_a, demo_b]"
    by (simp add: selected_packages_with_entry [symmetric] demo_selected)
  finally show ?thesis
    using fin by (simp add: demo_packages_with_entry demo_runner_sel demo_workspace_def)
qed

section \<open>Properties of lines 31 to 37 on the store\<close>

lemma heap_get_append_old: "a < length h \<Longrightarrow> heap_get (h @ x) a = heap_get h a"
  by (simp add: heap_get_def nth_append)

lemma read_package_Some:
  "read_package h a = Some p \<longleftrightarrow> a < length h \<and> h ! a = PackageObject p"
  by (auto simp: read_package_def heap_get_def split: heap_obj.splits)

lemma read_package_append:
  "read_package h a = Some p \<Longrightarrow> read_package (h @ x) a = Some p"
  by (simp add: read_package_Some nth_append)

lemma packages_append:
  "list_all2 (\<lambda>a p. read_package h a = Some p) as ps \<Longrightarrow>
   list_all2 (\<lambda>a p. read_package (h @ x) a = Some p) as ps"
  by (erule list_all2_mono) (rule read_package_append)

lemma upt_first: "[n ..< n + Suc k] = n # [Suc n ..< Suc n + k]"
  by (subst upt_rec) simp

lemma map_toJSON_result:
  assumes "list_all2 (\<lambda>a p. read_package h a = Some p) as ps"
  shows "map_toJSON h as =
           Some (h @ map fresh_copy ps, [length h ..< length h + length ps])"
  using assms
proof (induction as arbitrary: h ps)
  case Nil
  then show ?case by simp
next
  case (Cons a as)
  from Cons.prems obtain p ps' where ps: "ps = p # ps'"
    and hd: "read_package h a = Some p"
    and tl: "list_all2 (\<lambda>a p. read_package h a = Some p) as ps'"
    by (auto simp: list_all2_Cons1)
  from hd have get: "heap_get h a = Some (PackageObject p)"
    by (simp add: read_package_Some heap_get_def)
  from Cons.IH [OF packages_append [OF tl, of "[fresh_copy p]"]]
  have "map_toJSON (h @ [fresh_copy p]) as =
          Some (h @ map fresh_copy (p # ps'), [Suc (length h) ..< Suc (length h) + length ps'])"
    by simp
  moreover have "[length h ..< Suc (length h + length ps')] =
                   length h # [Suc (length h) ..< Suc (length h + length ps')]"
    by (rule upt_conv_Cons) simp
  ultimately show ?case
    by (simp add: get ps fresh_copy_def del: upt_Suc)
qed

lemma assign_locations_result:
  assumes "list_all2 (\<lambda>a p. read_package h a = Some p) as ps"
  shows "assign_locations (h @ ds @ map fresh_copy ps)
           [length h + length ds ..< length h + length ds + length ps] as =
           Some (h @ ds @ map located_copy ps)"
  using assms
proof (induction as ps arbitrary: ds rule: list_all2_induct)
  case Nil
  then show ?case by simp
next
  case (Cons a as p ps)
  note hd = Cons.hyps(1) and tl = Cons.hyps(2)
  let ?H = "h @ ds @ map fresh_copy (p # ps)"
  from hd have get_a: "heap_get ?H a = Some (PackageObject p)"
    by (simp add: read_package_Some heap_get_def nth_append)
  have get_j: "heap_get ?H (length h + length ds) = Some (JsonObject (toJSON p) None)"
    by (simp add: heap_get_def nth_append fresh_copy_def)
  have upd: "?H[length h + length ds := JsonObject (toJSON p) (Some (lp_location p))] =
               h @ (ds @ [located_copy p]) @ map fresh_copy ps"
    by (simp add: list_update_append located_copy_def)
  have idx: "[length h + length ds ..< length h + length ds + length (p # ps)] =
               (length h + length ds)
               # [length h + length (ds @ [located_copy p])
                    ..< length h + length (ds @ [located_copy p]) + length ps]"
    using upt_first [of "length h + length ds" "length ps"] by simp
  from Cons.IH [of "ds @ [located_copy p]"]
  show ?case
    unfolding idx by (simp only: assign_locations.simps get_j get_a option.case heap_obj.case upd) simp
qed

lemma read_json_located:
  "j < length ps \<Longrightarrow>
     read_json (h @ map located_copy ps) (length h + j) =
       Some (package_manifest.extend (toJSON (ps ! j)) \<lparr>location = lp_location (ps ! j)\<rparr>)"
  by (simp add: read_json_def heap_get_def nth_append located_copy_def)

lemma copies_read:
  "list_all2 (\<lambda>j pj. read_json (h @ map located_copy ps) j = Some pj)
     [length h ..< length h + length ps] (projectPackageJsons ps)"
  by (simp add: list_all2_conv_all_nth projectPackageJsons_def read_json_located)

lemma filter_entries_result:
  assumes "list_all2 (\<lambda>j pj. read_json H j = Some pj) js pjs"
  shows "filter_entries env H js =
           Some (map fst (filter (\<lambda>(j, pj). has_entry env (location pj)) (zip js pjs)))"
  using assms
proof (induction js pjs rule: list_all2_induct)
  case Nil
  then show ?case by simp
next
  case (Cons j js pj pjs)
  from Cons.hyps(1) obtain m loc where
    "heap_get H j = Some (JsonObject m (Some loc))" "location pj = loc"
    by (auto simp: read_json_def package_manifest.extend_def
             split: option.splits heap_obj.splits)
  with Cons.IH show ?case by simp
qed


text \<open>
  Claim C9: the runner never writes to the package objects of the list the lister
  resolved to. Lines 32 to 37 leave every object that was in the store before them as it
  was, so each element of the lister's list still reads as the same package, with the same
  fields. The one assignment (\<open>location\<close>, line 34) goes to the objects that
  \<open>toJSON()\<close> allocated, which hold the manifest and that location and nothing else;
  the array \<open>packageJsons\<close> holds references to those copies, kept or dropped by the
  entry-file test alone. The loop of lines 41 to 113 assigns to no package.
\<close>

theorem workspace_packages_not_mutated:
  assumes "list_all2 (\<lambda>a p. read_package h a = Some p) projectPackages pkgs"
  shows "\<exists>h' js ks.
           discover env h projectPackages = Some (h', js, ks)
           \<and> (\<forall>a < length h. heap_get h' a = heap_get h a)
           \<and> list_all2 (\<lambda>a p. read_package h' a = Some p) projectPackages pkgs
           \<and> js = [length h ..< length h + length pkgs]
           \<and> list_all2 (\<lambda>j pj. read_json h' j = Some pj) js (projectPackageJsons pkgs)
           \<and> ks = map fst (filter (\<lambda>(j, pj). has_entry env (location pj))
                              (zip js (projectPackageJsons pkgs)))"
proof -
  let ?js = "[length h ..< length h + length pkgs]"
  let ?h' = "h @ map located_copy pkgs"
  have m: "map_toJSON h projectPackages = Some (h @ map fresh_copy pkgs, ?js)"
    by (rule map_toJSON_result [OF assms])
  have a: "assign_locations (h @ map fresh_copy pkgs) ?js projectPackages = Some ?h'"
    using assign_locations_result [OF assms, of "[]"] by simp
  have c: "list_all2 (\<lambda>j pj. read_json ?h' j = Some pj) ?js (projectPackageJsons pkgs)"
    by (rule copies_read)
  have f: "filter_entries env ?h' ?js =
             Some (map fst (filter (\<lambda>(j, pj). has_entry env (location pj))
                              (zip ?js (projectPackageJsons pkgs))))"
    by (rule filter_entries_result [OF c])
  have d: "discover env h projectPackages =
             Some (?h', ?js, map fst (filter (\<lambda>(j, pj). has_entry env (location pj))
                                        (zip ?js (projectPackageJsons pkgs))))"
    by (simp add: discover_def m a f)
  have old: "\<forall>a < length h. heap_get ?h' a = heap_get h a"
    by (simp add: heap_get_append_old)
  have pk: "list_all2 (\<lambda>a p. read_package ?h' a = Some p) projectPackages pkgs"
    by (rule packages_append [OF assms])
  from d old pk c show ?thesis by blast
qed

lemma demo_heap_packages:
  "list_all2 (\<lambda>a p. read_package demo_heap a = Some p) [0, 1, 2] demo_workspace"
  by (simp add: demo_heap_def demo_workspace_def read_package_def heap_get_def)

theorem workspace_packages_not_mutated_witness:
  "\<exists>h'. discover (demo_runner_env warnings_only) demo_heap [0, 1, 2] = Some (h', [3, 4, 5], [3, 4])
     \<and> heap_get h' 0 = heap_get demo_heap 0
     \<and> heap_get h' 1 = heap_get demo_heap 1
     \<and> heap_get h' 2 = heap_get demo_heap 2
     \<and> read_json h' 3 = Some demo_a \<and> read_json h' 4 = Some demo_b"
proof -
  have len: "length demo_heap = 3" "length demo_workspace = 3"
    by (simp_all add: demo_heap_def demo_workspace_def)
  have js: "[3 ..< 3 + 3] = [3, 4, 5::nat]"
    by code_simp
  have pj: "projectPackageJsons demo_workspace =
              [demo_a, demo_b,
               \<lparr>m_name = ''c'', m_bundledPackages = None, m_other = [],
                location = ''/ws/packages/c''\<rparr>]"
    by (simp add: projectPackageJsons_def demo_workspace_def toJSON_def
          package_manifest.extend_def demo_a_def demo_b_def)
  have ks: "map fst (filter (\<lambda>(j, pj). has_entry (demo_runner_env warnings_only) (location pj))
                       (zip [3, 4, 5::nat] (projectPackageJsons demo_workspace))) = [3, 4]"
    by (simp add: pj has_entry_def demo_runner_env_def demo_join_def demo_files_def
          demo_a_def demo_b_def)
  from workspace_packages_not_mutated [OF demo_heap_packages, of "demo_runner_env warnings_only"]
  obtain h' js ks where
    d0: "discover (demo_runner_env warnings_only) demo_heap [0, 1, 2] = Some (h', js, ks)"
    and old: "\<forall>a < length demo_heap. heap_get h' a = heap_get demo_heap a"
    and jsv: "js = [length demo_heap ..< length demo_heap + length demo_workspace]"
    and copies0: "list_all2 (\<lambda>j pj. read_json h' j = Some pj) js
                   (projectPackageJsons demo_workspace)"
    and ksv: "ks = map fst (filter (\<lambda>(j, pj). has_entry (demo_runner_env warnings_only)
                                                (location pj))
                              (zip js (projectPackageJsons demo_workspace)))"
    by (elim exE conjE)
  from jsv have jsv': "js = [3, 4, 5]" by (simp only: len js)
  from ksv have ksv': "ks = [3, 4]" by (simp only: jsv' ks)
  from d0 have d: "discover (demo_runner_env warnings_only) demo_heap [0, 1, 2]
                     = Some (h', [3, 4, 5], [3, 4])"
    by (simp only: jsv' ksv')
  from copies0 have copies: "list_all2 (\<lambda>j pj. read_json h' j = Some pj) [3, 4, 5]
                   (projectPackageJsons demo_workspace)"
    by (simp only: jsv')
  from old have o: "heap_get h' 0 = heap_get demo_heap 0" "heap_get h' 1 = heap_get demo_heap 1"
    "heap_get h' 2 = heap_get demo_heap 2"
    by (simp_all add: len)
  from copies have r: "read_json h' 3 = Some demo_a" "read_json h' 4 = Some demo_b"
    by (simp_all add: pj)
  from d o r show ?thesis by blast
qed

end
